theory Spec2Isabelle
  imports Complex_Main "HOL-Library.Word"
begin

section \<open>Boundary variables of the mesh solver (CMeshBoundVariable.hpp)\<close>

text \<open>
  The class \<^verbatim>\<open>CMeshBoundVariable\<close> stores, for the points of a mesh that lie on a moving
  boundary, a displacement and a velocity (one value per dimension), two mode-shape
  tensors and a blade identifier. Every accessor takes a global point identifier and
  resolves it through the vertex map; the containers are addressed by the compact
  vertex index that the map returns.

  The scalar type \<^verbatim>\<open>su2double\<close> is a type parameter \<open>'v\<close>: the class only stores and
  returns such values, it never computes with them. The two messages that
  \<^verbatim>\<open>Initialize_ModeshapeMatrix\<close> prints are not part of the state and are left out.
\<close>

subsection \<open>Containers\<close>

text \<open>
  Modelled from the spec: the container types \<^verbatim>\<open>MatrixType\<close>, \<^verbatim>\<open>C3DDoubleMatrix\<close> and
  \<^verbatim>\<open>su2vector\<close> are declared in headers that are not among the sources. The spec says that
  index bounds "are enforced by the underlying tensor storage" and that a violation
  fails fast; an access outside the extents is therefore the error \<open>OutOfBounds\<close>.
  (\<open>BufferOverrun\<close> is the other failure of the model: an access beyond the end of an
  array that the caller passed by pointer.)
  A container is its extents and its entries; \<open>resize\<close> with a fill value gives a
  container of the new extents whose entries all hold that value.
\<close>

datatype error = OutOfBounds | BufferOverrun

record 'v MatrixType =
  m_rows :: nat
  m_cols :: nat
  m_data :: "nat \<Rightarrow> nat \<Rightarrow> 'v"

definition mat_empty :: "'v::zero MatrixType" where
  \<comment> \<open>Modelled from the spec: a container that was never resized holds nothing.\<close>
  "mat_empty = \<lparr>m_rows = 0, m_cols = 0, m_data = (\<lambda>_ _. 0)\<rparr>"

definition mat_resize :: "nat \<Rightarrow> nat \<Rightarrow> 'v \<Rightarrow> 'v MatrixType" where
  \<comment> \<open>Modelled from the spec: allocation to the given extents, filled with the given value.\<close>
  "mat_resize r c v = \<lparr>m_rows = r, m_cols = c, m_data = (\<lambda>_ _. v)\<rparr>"

definition mat_get :: "'v MatrixType \<Rightarrow> nat \<Rightarrow> nat \<Rightarrow> error + 'v" where
  \<comment> \<open>Modelled from the spec: element access of the matrix container, bounds enforced.\<close>
  "mat_get M i j =
     (if i < m_rows M \<and> j < m_cols M then Inr (m_data M i j) else Inl OutOfBounds)"

definition mat_set :: "'v MatrixType \<Rightarrow> nat \<Rightarrow> nat \<Rightarrow> 'v \<Rightarrow> error + 'v MatrixType" where
  \<comment> \<open>Modelled from the spec: element assignment of the matrix container, bounds enforced.\<close>
  "mat_set M i j v =
     (if i < m_rows M \<and> j < m_cols M
      then Inr (M\<lparr>m_data := (m_data M)(i := (m_data M i)(j := v))\<rparr>)
      else Inl OutOfBounds)"

record 'v C3DDoubleMatrix =
  t_length :: nat
  t_rows :: nat
  t_cols :: nat
  t_data :: "nat \<Rightarrow> nat \<Rightarrow> nat \<Rightarrow> 'v"

definition ten_empty :: "'v::zero C3DDoubleMatrix" where
  \<comment> \<open>Modelled from the spec: a container that was never resized holds nothing.\<close>
  "ten_empty = \<lparr>t_length = 0, t_rows = 0, t_cols = 0, t_data = (\<lambda>_ _ _. 0)\<rparr>"

definition ten_resize :: "nat \<Rightarrow> nat \<Rightarrow> nat \<Rightarrow> 'v \<Rightarrow> 'v C3DDoubleMatrix" where
  \<comment> \<open>Modelled from the spec: allocation to the given extents, filled with the given value.\<close>
  "ten_resize n r c v = \<lparr>t_length = n, t_rows = r, t_cols = c, t_data = (\<lambda>_ _ _. v)\<rparr>"

definition ten_get :: "'v C3DDoubleMatrix \<Rightarrow> nat \<Rightarrow> nat \<Rightarrow> nat \<Rightarrow> error + 'v" where
  \<comment> \<open>Modelled from the spec: element access of the rank-3 container, bounds enforced.\<close>
  "ten_get T i j k =
     (if i < t_length T \<and> j < t_rows T \<and> k < t_cols T
      then Inr (t_data T i j k) else Inl OutOfBounds)"

definition ten_set ::
  "'v C3DDoubleMatrix \<Rightarrow> nat \<Rightarrow> nat \<Rightarrow> nat \<Rightarrow> 'v \<Rightarrow> error + 'v C3DDoubleMatrix" where
  \<comment> \<open>Modelled from the spec: element assignment of the rank-3 container, bounds enforced.\<close>
  "ten_set T i j k v =
     (if i < t_length T \<and> j < t_rows T \<and> k < t_cols T
      then Inr (T\<lparr>t_data := (t_data T)(i := (t_data T i)(j := (t_data T i j)(k := v)))\<rparr>)
      else Inl OutOfBounds)"

record 'a su2vector =
  v_size :: nat
  v_data :: "nat \<Rightarrow> 'a"

definition vec_empty :: "'a::zero su2vector" where
  \<comment> \<open>Modelled from the spec: a container that was never resized holds nothing.\<close>
  "vec_empty = \<lparr>v_size = 0, v_data = (\<lambda>_. 0)\<rparr>"

definition vec_resize :: "nat \<Rightarrow> 'a \<Rightarrow> 'a su2vector" where
  \<comment> \<open>Modelled from the spec: allocation to the given size, filled with the given value.\<close>
  "vec_resize n v = \<lparr>v_size = n, v_data = (\<lambda>_. v)\<rparr>"

definition vec_get :: "'a su2vector \<Rightarrow> nat \<Rightarrow> error + 'a" where
  \<comment> \<open>Modelled from the spec: element access of the vector container, bounds enforced.\<close>
  "vec_get V i = (if i < v_size V then Inr (v_data V i) else Inl OutOfBounds)"

definition vec_set :: "'a su2vector \<Rightarrow> nat \<Rightarrow> 'a \<Rightarrow> error + 'a su2vector" where
  \<comment> \<open>Modelled from the spec: element assignment of the vector container, bounds enforced.\<close>
  "vec_set V i v =
     (if i < v_size V then Inr (V\<lparr>v_data := (v_data V)(i := v)\<rparr>) else Inl OutOfBounds)"

subsection \<open>The vertex map\<close>

text \<open>
  Modelled from the spec: the class \<^verbatim>\<open>CVertexMap\<close>, which the header includes from
  \<^verbatim>\<open>Common/include/containers/CVertexMap.hpp\<close>, is not among the sources. The spec describes it as a flag per point, a sparse array
  over the points that holds "either an invalid sentinel or a compact index" (here
  \<open>None\<close> or \<open>Some k\<close>), and a dense array of the point identifiers of the boundary
  vertices. \<open>SetIsVertex\<close> writes the flag of a point (the last write wins);
  \<open>GetIsVertex\<close> is the flag lookup; \<open>GetVertexIndex\<close> is empty for a point that has
  no compact index and never fails; \<open>Build\<close> walks the points in ascending order and
  gives the flagged ones the indices \<open>0, 1, ...\<close>. Point identifiers range over
  \<open>[0, nPoint)\<close>: a flag written for any other number changes nothing, and the lookups
  answer "not a vertex" there.
\<close>

record CVertexMap =
  isVertex :: "bool list"
  Map :: "nat option list"
  Vertices :: "nat list"

definition Reset :: "nat \<Rightarrow> CVertexMap" where
  \<comment> \<open>Modelled from the spec: the map over \<open>nPoint\<close> points, none of them flagged or
      indexed.\<close>
  "Reset nPoint =
     \<lparr>isVertex = replicate nPoint False, Map = replicate nPoint None, Vertices = []\<rparr>"

definition SetIsVertex :: "CVertexMap \<Rightarrow> nat \<Rightarrow> bool \<Rightarrow> CVertexMap" where
  \<comment> \<open>Modelled from the spec: \<^verbatim>\<open>CVertexMap::SetIsVertex\<close> marks or unmarks a point; the
      last write wins.\<close>
  "SetIsVertex vm iPoint flag = vm\<lparr>isVertex := (isVertex vm)[iPoint := flag]\<rparr>"

definition GetIsVertex :: "CVertexMap \<Rightarrow> nat \<Rightarrow> bool" where
  \<comment> \<open>Modelled from the spec: \<^verbatim>\<open>CVertexMap::GetIsVertex\<close> is the pure flag lookup.\<close>
  "GetIsVertex vm iPoint = (iPoint < length (isVertex vm) \<and> isVertex vm ! iPoint)"

definition GetVertexIndex :: "CVertexMap \<Rightarrow> nat \<Rightarrow> nat option" where
  \<comment> \<open>Modelled from the spec: \<^verbatim>\<open>CVertexMap::GetVertexIndex\<close> gives the compact index, or nothing for a
      point that was never flagged or not yet compacted; it never fails.\<close>
  "GetVertexIndex vm iPoint = (if iPoint < length (Map vm) then Map vm ! iPoint else None)"

definition GetnVertex :: "CVertexMap \<Rightarrow> nat" where
  \<comment> \<open>Modelled from the spec: the number of boundary vertices that \<open>Build\<close> recorded.\<close>
  "GetnVertex vm = length (Vertices vm)"

function Build_loop :: "CVertexMap \<Rightarrow> nat \<Rightarrow> CVertexMap" where
  \<comment> \<open>Modelled from the spec: the scan of \<^verbatim>\<open>CVertexMap::Build\<close> over the points, in
      ascending order.\<close>
  "Build_loop vm iPoint =
     (if iPoint < length (isVertex vm) then
        (if isVertex vm ! iPoint
         then Build_loop (vm\<lparr>Map := (Map vm)[iPoint := Some (length (Vertices vm))],
                             Vertices := Vertices vm @ [iPoint]\<rparr>) (iPoint + 1)
         else Build_loop (vm\<lparr>Map := (Map vm)[iPoint := None]\<rparr>) (iPoint + 1))
      else vm)"
  by pat_completeness auto
termination
  by (relation "measure (\<lambda>(vm, iPoint). length (isVertex vm) - iPoint)") auto

declare Build_loop.simps [simp del]

definition Build :: "CVertexMap \<Rightarrow> CVertexMap" where
  \<comment> \<open>Modelled from the spec: \<^verbatim>\<open>CVertexMap::Build\<close> compacts the points currently flagged into the indices
      \<open>0..k-1\<close>, in ascending order of point identifier.\<close>
  "Build vm = Build_loop (vm\<lparr>Vertices := []\<rparr>) 0"

subsection \<open>The class\<close>

text \<open>
  The members of \<^verbatim>\<open>CMeshBoundVariable\<close>, with \<open>nDim\<close> and \<open>nVar\<close> of the base class
  \<^verbatim>\<open>CVariable\<close>. The blade identifiers are \<^verbatim>\<open>unsigned short\<close>, 16-bit words. The counts
  are \<^verbatim>\<open>unsigned long\<close>; the class does no arithmetic on them, they are natural numbers.
\<close>

record 'v CMeshBoundVariable =
  nDim :: nat
  nVar :: nat
  Boundary_Displacement :: "'v MatrixType"
  Boundary_Velocity :: "'v MatrixType"
  Boundary_ModeShape :: "'v C3DDoubleMatrix"
  Boundary_ModeShape_TWM :: "'v C3DDoubleMatrix"
  VertexMap :: CVertexMap
  Boundary_BladeID :: "16 word su2vector"
  nMode :: nat
  nBlade :: nat

text \<open>
  Modelled from the spec: the constructor and \<^verbatim>\<open>AllocateBoundaryVariables\<close> are declared
  in the header and defined in a file that is not among the sources. The constructor
  takes the number of points and the number of dimensions; the containers start empty,
  \<open>nMode\<close> and \<open>nBlade\<close> start at 0 (their member initialisers), no point is flagged.
  The number of variables of a mesh variable is its number of dimensions (the spec's
  adjoint buffer has one entry per dimension). The header documents
  \<^verbatim>\<open>AllocateBoundaryVariables\<close> as "Allocate member variables for points marked as
  vertex": it builds the vertex map and sizes displacement, velocity and blade
  identifiers to the number of vertices, zero-filled. By the spec "all tensors are
  allocated to exactly that extent", and \<^verbatim>\<open>Initialize_ModeshapeMatrix\<close> reads the number of
  boundary points back from \<^verbatim>\<open>Boundary_ModeShape.length()\<close>: the two mode-shape tensors get
  their first extent here, with \<open>nMode\<close> modes. Before the mode-shape initializer has
  run \<open>nMode\<close> is 0 and they hold no entry (they are "allocated lazily on first
  initialization call").
\<close>

definition CMeshBoundVariable :: "nat \<Rightarrow> nat \<Rightarrow> 'v::zero CMeshBoundVariable" where
  \<comment> \<open>Modelled from the spec: the constructor, declared in the header and defined elsewhere.\<close>
  "CMeshBoundVariable npoint ndim =
     \<lparr>nDim = ndim, nVar = ndim,
      Boundary_Displacement = mat_empty, Boundary_Velocity = mat_empty,
      Boundary_ModeShape = ten_empty, Boundary_ModeShape_TWM = ten_empty,
      VertexMap = Reset npoint, Boundary_BladeID = vec_empty,
      nMode = 0, nBlade = 0\<rparr>"

definition AllocateBoundaryVariables ::
  "'v::zero CMeshBoundVariable \<Rightarrow> 'v CMeshBoundVariable" where
  \<comment> \<open>Modelled from the spec: \<^verbatim>\<open>AllocateBoundaryVariables\<close>, declared in the header and
      defined elsewhere.\<close>
  "AllocateBoundaryVariables s =
     (let vm = Build (VertexMap s); nBoundPt = GetnVertex vm
      in s\<lparr>VertexMap := vm,
           Boundary_Displacement := mat_resize nBoundPt (nDim s) 0,
           Boundary_Velocity := mat_resize nBoundPt (nDim s) 0,
           Boundary_ModeShape := ten_resize nBoundPt (nMode s) (nDim s) 0,
           Boundary_ModeShape_TWM := ten_resize nBoundPt (nMode s) (nDim s) 0,
           Boundary_BladeID := vec_resize nBoundPt 0\<rparr>)"

text \<open>
  The accessors of the header. Each one starts with
  \<^verbatim>\<open>if (!VertexMap.GetVertexIndex(iPoint)) return ...;\<close>: the lookup resolves the point
  to its compact index, and the container is then addressed with that index. The
  pointer overloads of the setters are \<open>SetBound_Disp_vec\<close> and \<open>SetBound_Vel_vec\<close>; the
  array behind the pointer is a list. \<^verbatim>\<open>Register_BoundDisp\<close> is declared in the header and
  defined elsewhere; it is not modelled.
\<close>

definition GetBound_Disp :: "'v::zero CMeshBoundVariable \<Rightarrow> nat \<Rightarrow> nat \<Rightarrow> error + 'v" where
  "GetBound_Disp s iPoint iDim =
     (case GetVertexIndex (VertexMap s) iPoint of
        None \<Rightarrow> Inr 0
      | Some iVertex \<Rightarrow> mat_get (Boundary_Displacement s) iVertex iDim)"

function copy_loop ::
  "nat \<Rightarrow> 'v list \<Rightarrow> nat \<Rightarrow> nat \<Rightarrow> 'v MatrixType \<Rightarrow> error + 'v MatrixType" where
  "copy_loop ndim vals iVertex iDim M =
     (if iDim < ndim then
        (if iDim < length vals then
           (case mat_set M iVertex iDim (vals ! iDim) of
              Inl e \<Rightarrow> Inl e
            | Inr M' \<Rightarrow> copy_loop ndim vals iVertex (iDim + 1) M')
         else Inl BufferOverrun)
      else Inr M)"
  by pat_completeness auto
termination
  by (relation "measure (\<lambda>(ndim, vals, iVertex, iDim, M). ndim - iDim)") auto

declare copy_loop.simps [simp del]

definition SetBound_Disp_vec ::
  "'v CMeshBoundVariable \<Rightarrow> nat \<Rightarrow> 'v list \<Rightarrow> error + 'v CMeshBoundVariable" where
  "SetBound_Disp_vec s iPoint val_BoundDisp =
     (case GetVertexIndex (VertexMap s) iPoint of
        None \<Rightarrow> Inr s
      | Some iVertex \<Rightarrow>
          (case copy_loop (nDim s) val_BoundDisp iVertex 0 (Boundary_Displacement s) of
             Inl e \<Rightarrow> Inl e
           | Inr M \<Rightarrow> Inr (s\<lparr>Boundary_Displacement := M\<rparr>)))"

definition SetBound_Disp ::
  "'v CMeshBoundVariable \<Rightarrow> nat \<Rightarrow> nat \<Rightarrow> 'v \<Rightarrow> error + 'v CMeshBoundVariable" where
  "SetBound_Disp s iPoint iDim val_BoundDisp =
     (case GetVertexIndex (VertexMap s) iPoint of
        None \<Rightarrow> Inr s
      | Some iVertex \<Rightarrow>
          (case mat_set (Boundary_Displacement s) iVertex iDim val_BoundDisp of
             Inl e \<Rightarrow> Inl e
           | Inr M \<Rightarrow> Inr (s\<lparr>Boundary_Displacement := M\<rparr>)))"

definition Initialize_ModeshapeMatrix ::
  "'v::zero CMeshBoundVariable \<Rightarrow> 16 word \<Rightarrow> 'v CMeshBoundVariable" where
  "Initialize_ModeshapeMatrix s val_nMode =
     (let s1 = s\<lparr>nMode := unat val_nMode\<rparr>;
          nBoundPt = t_length (Boundary_ModeShape s1)
      in s1\<lparr>Boundary_ModeShape := ten_resize nBoundPt (nMode s1) (nDim s1) 0,
            Boundary_ModeShape_TWM := ten_resize nBoundPt (nMode s1) (nDim s1) 0\<rparr>)"

text \<open>
  The header declares \<^verbatim>\<open>SetBound_ModeShape\<close> twice with the same parameter types; the
  first body writes \<open>Boundary_ModeShape\<close>, the second \<open>Boundary_ModeShape_TWM\<close>. They are
  two operations here, the second under the name \<open>SetBound_ModeShape_TWM\<close>.
\<close>

definition SetBound_ModeShape ::
  "'v CMeshBoundVariable \<Rightarrow> nat \<Rightarrow> nat \<Rightarrow> nat \<Rightarrow> 'v \<Rightarrow> error + 'v CMeshBoundVariable" where
  "SetBound_ModeShape s iPoint iMode iDim val_BoundModeShape =
     (case GetVertexIndex (VertexMap s) iPoint of
        None \<Rightarrow> Inr s
      | Some iVertex \<Rightarrow>
          (case ten_set (Boundary_ModeShape s) iVertex iMode iDim val_BoundModeShape of
             Inl e \<Rightarrow> Inl e
           | Inr T \<Rightarrow> Inr (s\<lparr>Boundary_ModeShape := T\<rparr>)))"

definition SetBound_ModeShape_TWM ::
  "'v CMeshBoundVariable \<Rightarrow> nat \<Rightarrow> nat \<Rightarrow> nat \<Rightarrow> 'v \<Rightarrow> error + 'v CMeshBoundVariable" where
  "SetBound_ModeShape_TWM s iPoint iMode iDim val_BoundModeShape_TWM =
     (case GetVertexIndex (VertexMap s) iPoint of
        None \<Rightarrow> Inr s
      | Some iVertex \<Rightarrow>
          (case ten_set (Boundary_ModeShape_TWM s) iVertex iMode iDim val_BoundModeShape_TWM of
             Inl e \<Rightarrow> Inl e
           | Inr T \<Rightarrow> Inr (s\<lparr>Boundary_ModeShape_TWM := T\<rparr>)))"

definition SetBound_BladeID ::
  "'v CMeshBoundVariable \<Rightarrow> nat \<Rightarrow> 16 word \<Rightarrow> error + 'v CMeshBoundVariable" where
  "SetBound_BladeID s iPoint val_BladeID =
     (case GetVertexIndex (VertexMap s) iPoint of
        None \<Rightarrow> Inr s
      | Some iVertex \<Rightarrow>
          (case vec_set (Boundary_BladeID s) iVertex val_BladeID of
             Inl e \<Rightarrow> Inl e
           | Inr V \<Rightarrow> Inr (s\<lparr>Boundary_BladeID := V\<rparr>)))"

definition GetBound_ModeShape ::
  "'v::zero CMeshBoundVariable \<Rightarrow> nat \<Rightarrow> nat \<Rightarrow> nat \<Rightarrow> error + 'v" where
  "GetBound_ModeShape s iPoint iMode iDim =
     (case GetVertexIndex (VertexMap s) iPoint of
        None \<Rightarrow> Inr 0
      | Some iVertex \<Rightarrow> ten_get (Boundary_ModeShape s) iVertex iMode iDim)"

definition GetBound_ModeShape_TWM ::
  "'v::zero CMeshBoundVariable \<Rightarrow> nat \<Rightarrow> nat \<Rightarrow> nat \<Rightarrow> error + 'v" where
  "GetBound_ModeShape_TWM s iPoint iMode iDim =
     (case GetVertexIndex (VertexMap s) iPoint of
        None \<Rightarrow> Inr 0
      | Some iVertex \<Rightarrow> ten_get (Boundary_ModeShape_TWM s) iVertex iMode iDim)"

text \<open>
  \<^verbatim>\<open>GetBound_BladeID\<close> returns a \<^verbatim>\<open>su2double\<close>: the stored 16-bit identifier is converted.
\<close>

definition GetBound_BladeID :: "'v::semiring_1 CMeshBoundVariable \<Rightarrow> nat \<Rightarrow> error + 'v" where
  "GetBound_BladeID s iPoint =
     (case GetVertexIndex (VertexMap s) iPoint of
        None \<Rightarrow> Inr 0
      | Some iVertex \<Rightarrow>
          (case vec_get (Boundary_BladeID s) iVertex of
             Inl e \<Rightarrow> Inl e
           | Inr b \<Rightarrow> Inr (of_nat (unat b))))"

definition GetBound_Vel :: "'v::zero CMeshBoundVariable \<Rightarrow> nat \<Rightarrow> nat \<Rightarrow> error + 'v" where
  "GetBound_Vel s iPoint iDim =
     (case GetVertexIndex (VertexMap s) iPoint of
        None \<Rightarrow> Inr 0
      | Some iVertex \<Rightarrow> mat_get (Boundary_Velocity s) iVertex iDim)"

definition SetBound_Vel_vec ::
  "'v CMeshBoundVariable \<Rightarrow> nat \<Rightarrow> 'v list \<Rightarrow> error + 'v CMeshBoundVariable" where
  "SetBound_Vel_vec s iPoint val_BoundVel =
     (case GetVertexIndex (VertexMap s) iPoint of
        None \<Rightarrow> Inr s
      | Some iVertex \<Rightarrow>
          (case copy_loop (nDim s) val_BoundVel iVertex 0 (Boundary_Velocity s) of
             Inl e \<Rightarrow> Inl e
           | Inr M \<Rightarrow> Inr (s\<lparr>Boundary_Velocity := M\<rparr>)))"

definition SetBound_Vel ::
  "'v CMeshBoundVariable \<Rightarrow> nat \<Rightarrow> nat \<Rightarrow> 'v \<Rightarrow> error + 'v CMeshBoundVariable" where
  "SetBound_Vel s iPoint iDim val_BoundVel =
     (case GetVertexIndex (VertexMap s) iPoint of
        None \<Rightarrow> Inr s
      | Some iVertex \<Rightarrow>
          (case mat_set (Boundary_Velocity s) iVertex iDim val_BoundVel of
             Inl e \<Rightarrow> Inl e
           | Inr M \<Rightarrow> Inr (s\<lparr>Boundary_Velocity := M\<rparr>)))"

text \<open>
  \<^verbatim>\<open>GetAdjoint_BoundDisp\<close> fills the caller's array \<open>adj_disp\<close>, entry by entry, for
  \<open>iVar\<close> below \<open>nVar\<close>. \<^verbatim>\<open>SU2_TYPE::GetDerivative\<close> belongs to the differentiation engine;
  it is the parameter \<open>GetDerivative\<close>, the derivative attached to a stored value.
\<close>

function adjoint_loop ::
  "('v \<Rightarrow> 'v) \<Rightarrow> nat \<Rightarrow> 'v MatrixType \<Rightarrow> nat \<Rightarrow> nat \<Rightarrow> 'v list \<Rightarrow> error + 'v list" where
  "adjoint_loop GetDerivative nvar M iVertex iVar adj_disp =
     (if iVar < nvar then
        (case mat_get M iVertex iVar of
           Inl e \<Rightarrow> Inl e
         | Inr x \<Rightarrow>
             (if iVar < length adj_disp
              then adjoint_loop GetDerivative nvar M iVertex (iVar + 1)
                     (adj_disp[iVar := GetDerivative x])
              else Inl BufferOverrun))
      else Inr adj_disp)"
  by pat_completeness auto
termination
  by (relation "measure (\<lambda>(G, nvar, M, iVertex, iVar, adj). nvar - iVar)") auto

declare adjoint_loop.simps [simp del]

definition GetAdjoint_BoundDisp ::
  "('v \<Rightarrow> 'v) \<Rightarrow> 'v CMeshBoundVariable \<Rightarrow> nat \<Rightarrow> 'v list \<Rightarrow> error + 'v list" where
  "GetAdjoint_BoundDisp GetDerivative s iPoint adj_disp =
     (case GetVertexIndex (VertexMap s) iPoint of
        None \<Rightarrow> Inr adj_disp
      | Some iVertex \<Rightarrow>
          adjoint_loop GetDerivative (nVar s) (Boundary_Displacement s) iVertex 0 adj_disp)"

definition Get_isVertex :: "'v CMeshBoundVariable \<Rightarrow> nat \<Rightarrow> bool" where
  "Get_isVertex s iPoint = GetIsVertex (VertexMap s) iPoint"

definition Set_isVertex :: "'v CMeshBoundVariable \<Rightarrow> nat \<Rightarrow> bool \<Rightarrow> 'v CMeshBoundVariable" where
  "Set_isVertex s iPoint flag = s\<lparr>VertexMap := SetIsVertex (VertexMap s) iPoint flag\<rparr>"

definition GetVertexMap :: "'v CMeshBoundVariable \<Rightarrow> CVertexMap" where
  "GetVertexMap s = VertexMap s"

subsection \<open>Sequences of calls\<close>

text \<open>
  A caller flags a list of points one after the other.
\<close>

fun flag_points :: "CVertexMap \<Rightarrow> nat list \<Rightarrow> CVertexMap" where
  "flag_points vm [] = vm"
| "flag_points vm (p # ps) = flag_points (SetIsVertex vm p True) ps"

text \<open>
  The calls that change an object of the class, and a run of such calls from a given
  state. A failed call ends the run, as the assertion would end the program.
\<close>

datatype 'v call =
    Call_Set_isVertex nat bool
  | Call_AllocateBoundaryVariables
  | Call_SetBound_Disp_vec nat "'v list"
  | Call_SetBound_Disp nat nat 'v
  | Call_Initialize_ModeshapeMatrix "16 word"
  | Call_SetBound_ModeShape nat nat nat 'v
  | Call_SetBound_ModeShape_TWM nat nat nat 'v
  | Call_SetBound_BladeID nat "16 word"
  | Call_SetBound_Vel_vec nat "'v list"
  | Call_SetBound_Vel nat nat 'v

fun exec :: "'v::zero CMeshBoundVariable \<Rightarrow> 'v call \<Rightarrow> error + 'v CMeshBoundVariable" where
  "exec s (Call_Set_isVertex p flag) = Inr (Set_isVertex s p flag)"
| "exec s Call_AllocateBoundaryVariables = Inr (AllocateBoundaryVariables s)"
| "exec s (Call_SetBound_Disp_vec p vals) = SetBound_Disp_vec s p vals"
| "exec s (Call_SetBound_Disp p i v) = SetBound_Disp s p i v"
| "exec s (Call_Initialize_ModeshapeMatrix m) = Inr (Initialize_ModeshapeMatrix s m)"
| "exec s (Call_SetBound_ModeShape p k i v) = SetBound_ModeShape s p k i v"
| "exec s (Call_SetBound_ModeShape_TWM p k i v) = SetBound_ModeShape_TWM s p k i v"
| "exec s (Call_SetBound_BladeID p b) = SetBound_BladeID s p b"
| "exec s (Call_SetBound_Vel_vec p vals) = SetBound_Vel_vec s p vals"
| "exec s (Call_SetBound_Vel p i v) = SetBound_Vel s p i v"

fun run :: "'v::zero CMeshBoundVariable \<Rightarrow> 'v call list \<Rightarrow> error + 'v CMeshBoundVariable" where
  "run s [] = Inr s"
| "run s (c # cs) = (case exec s c of Inl e \<Rightarrow> Inl e | Inr s' \<Rightarrow> run s' cs)"

text \<open>
  An object is allocated when the two arrays of its vertex map cover the same points,
  it has one variable per dimension, and the displacement, the velocity and the blade
  identifiers have a slot for every compact index that the vertex map holds.
\<close>

definition allocated :: "'v CMeshBoundVariable \<Rightarrow> bool" where
  "allocated s \<longleftrightarrow>
     length (Map (VertexMap s)) = length (isVertex (VertexMap s)) \<and>
     nVar s = nDim s \<and>
     (\<forall>k \<in> set (Map (VertexMap s)).
        case k of
          None \<Rightarrow> True
        | Some iVertex \<Rightarrow>
            iVertex < m_rows (Boundary_Displacement s) \<and>
            nDim s \<le> m_cols (Boundary_Displacement s) \<and>
            iVertex < m_rows (Boundary_Velocity s) \<and>
            nDim s \<le> m_cols (Boundary_Velocity s) \<and>
            iVertex < v_size (Boundary_BladeID s))"

text \<open>
  The mode-shape tensors of an object are sized when the first extent of the standard
  tensor is the number of boundary vertices and every compact index that the vertex map
  holds is below that number.
\<close>

definition mode_shapes_sized :: "'v CMeshBoundVariable \<Rightarrow> bool" where
  "mode_shapes_sized s \<longleftrightarrow>
     t_length (Boundary_ModeShape s) = GetnVertex (VertexMap s) \<and>
     (\<forall>k \<in> set (Map (VertexMap s)).
        case k of
          None \<Rightarrow> True
        | Some iVertex \<Rightarrow> iVertex < GetnVertex (VertexMap s))"

text \<open>
  The object of the spec's scenarios: a mesh of 10 points in 2 dimensions, the points
  1, 3 and 7 flagged, the boundary variables allocated.
\<close>

definition scenario :: "real CMeshBoundVariable" where
  "scenario =
     AllocateBoundaryVariables
       (Set_isVertex (Set_isVertex (Set_isVertex (CMeshBoundVariable 10 2) 7 True) 1 True) 3 True)"


text \<open>
  The calls of the spec's first scenario, which go on to store the displacement
  \<open>(0.1, 0.2)\<close> at point 3.
\<close>

definition scenario_calls :: "real call list" where
  "scenario_calls =
     [Call_Set_isVertex 7 True, Call_Set_isVertex 1 True, Call_Set_isVertex 3 True,
      Call_AllocateBoundaryVariables, Call_SetBound_Disp_vec 3 [0.1, 0.2]]"

text \<open>
  The object of the spec's mode-shape scenario: \<^verbatim>\<open>Initialize_ModeshapeMatrix(2)\<close> is called
  on the object with 3 boundary vertices.
\<close>

definition scenario_modes :: "real CMeshBoundVariable" where
  "scenario_modes = Initialize_ModeshapeMatrix scenario 2"

section \<open>Properties\<close>

subsection \<open>Containers and loops\<close>

lemma copy_loop_result:
  assumes "iVertex < m_rows M" and "ndim \<le> m_cols M" and "ndim \<le> length vals"
  shows "copy_loop ndim vals iVertex iDim M =
           Inr (M\<lparr>m_data := (\<lambda>a b. if a = iVertex \<and> iDim \<le> b \<and> b < ndim
                                     then vals ! b else m_data M a b)\<rparr>)"
  using assms
proof (induction ndim vals iVertex iDim M rule: copy_loop.induct)
  case (1 ndim vals iVertex iDim M)
  show ?case
  proof (cases "iDim < ndim")
    case False
    then have "(\<lambda>a b. if a = iVertex \<and> iDim \<le> b \<and> b < ndim
                       then vals ! b else m_data M a b) = m_data M"
      by (auto simp: fun_eq_iff)
    with False show ?thesis
      by (subst copy_loop.simps) simp
  next
    case True
    let ?M1 = "M\<lparr>m_data := (m_data M)(iVertex := (m_data M iVertex)(iDim := vals ! iDim))\<rparr>"
    have len: "iDim < length vals" using True "1.prems" by simp
    have set: "mat_set M iVertex iDim (vals ! iDim) = Inr ?M1"
      using True "1.prems" by (simp add: mat_set_def)
    have "copy_loop ndim vals iVertex (iDim + 1) ?M1 =
            Inr (?M1\<lparr>m_data := (\<lambda>a b. if a = iVertex \<and> iDim + 1 \<le> b \<and> b < ndim
                                       then vals ! b else m_data ?M1 a b)\<rparr>)"
      using "1.IH" [OF True len set] "1.prems" by simp
    moreover have "(\<lambda>a b. if a = iVertex \<and> iDim + 1 \<le> b \<and> b < ndim
                            then vals ! b else m_data ?M1 a b) =
                   (\<lambda>a b. if a = iVertex \<and> iDim \<le> b \<and> b < ndim
                            then vals ! b else m_data M a b)"
      using True by (auto simp: fun_eq_iff)
    ultimately show ?thesis
      using True len set by (subst copy_loop.simps) simp
  qed
qed

lemma copy_loop_extents:
  "copy_loop ndim vals iVertex iDim M = Inr M' \<Longrightarrow>
   m_rows M' = m_rows M \<and> m_cols M' = m_cols M"
proof (induction ndim vals iVertex iDim M rule: copy_loop.induct)
  case (1 ndim vals iVertex iDim M)
  from "1.prems" show ?case
    by (subst (asm) copy_loop.simps)
       (auto simp: mat_set_def split: if_splits sum.splits dest!: "1.IH")
qed

lemma adjoint_loop_result:
  assumes "iVertex < m_rows M" and "nvar \<le> m_cols M" and "nvar \<le> length adj"
    and "iVar \<le> nvar"
  shows "adjoint_loop G nvar M iVertex iVar adj =
           Inr (take iVar adj @ map (\<lambda>i. G (m_data M iVertex i)) [iVar..<nvar] @ drop nvar adj)"
  using assms
proof (induction G nvar M iVertex iVar adj rule: adjoint_loop.induct)
  case (1 G nvar M iVertex iVar adj)
  show ?case
  proof (cases "iVar < nvar")
    case False
    with "1.prems" have "iVar = nvar" by simp
    then show ?thesis
      by (subst adjoint_loop.simps) simp
  next
    case True
    let ?x = "m_data M iVertex iVar"
    have get: "mat_get M iVertex iVar = Inr ?x"
      using True "1.prems" by (simp add: mat_get_def)
    have len: "iVar < length adj" using True "1.prems" by simp
    have t: "take (Suc iVar) (adj[iVar := G ?x]) = take iVar adj @ [G ?x]"
      using len by (simp add: take_Suc_conv_app_nth)
    have d: "drop nvar (adj[iVar := G ?x]) = drop nvar adj"
      using True by simp
    have u: "[iVar..<nvar] = iVar # [Suc iVar..<nvar]"
      using True by (simp add: upt_conv_Cons)
    have "adjoint_loop G nvar M iVertex (iVar + 1) (adj[iVar := G ?x]) =
            Inr (take (Suc iVar) (adj[iVar := G ?x]) @
                 map (\<lambda>i. G (m_data M iVertex i)) [Suc iVar..<nvar] @
                 drop nvar (adj[iVar := G ?x]))"
      using "1.IH" [OF True get len] "1.prems" True by simp
    then have step: "adjoint_loop G nvar M iVertex (iVar + 1) (adj[iVar := G ?x]) =
            Inr (take iVar adj @ map (\<lambda>i. G (m_data M iVertex i)) [iVar..<nvar] @
                 drop nvar adj)"
      by (simp only: t d u list.map append_Cons append_Nil append_assoc)
    have "adjoint_loop G nvar M iVertex iVar adj =
            adjoint_loop G nvar M iVertex (iVar + 1) (adj[iVar := G ?x])"
      using True get len by (subst adjoint_loop.simps) simp
    with step show ?thesis by simp
  qed
qed

subsection \<open>The compaction loop\<close>

lemma Build_loop_isVertex: "isVertex (Build_loop vm i) = isVertex vm"
proof (induction vm i rule: Build_loop.induct)
  case (1 vm iPoint)
  then show ?case
    by (subst Build_loop.simps) auto
qed

lemma Build_loop_length_Map: "length (Map (Build_loop vm i)) = length (Map vm)"
proof (induction vm i rule: Build_loop.induct)
  case (1 vm iPoint)
  then show ?case
    by (subst Build_loop.simps) auto
qed

lemma filter_upt_step:
  "i < n \<Longrightarrow> filter P [i..<n] = (if P i then [i] else []) @ filter P [Suc i..<n]"
  by (simp add: upt_conv_Cons)

lemma Build_loop_Vertices:
  "Vertices (Build_loop vm i) =
     Vertices vm @ filter (\<lambda>q. isVertex vm ! q) [i..<length (isVertex vm)]"
proof (induction vm i rule: Build_loop.induct)
  case (1 vm iPoint)
  then show ?case
    by (subst Build_loop.simps) (auto simp: filter_upt_step)
qed

lemma Build_loop_Map:
  "q < length (Map vm) \<Longrightarrow>
   Map (Build_loop vm i) ! q =
     (if q < i \<or> length (isVertex vm) \<le> q then Map vm ! q
      else if isVertex vm ! q
        then Some (length (Vertices vm) + length (filter (\<lambda>r. isVertex vm ! r) [i..<q]))
        else None)"
proof (induction vm i rule: Build_loop.induct)
  case (1 vm iPoint)
  let ?rhs = "if q < iPoint \<or> length (isVertex vm) \<le> q then Map vm ! q
      else if isVertex vm ! q
        then Some (length (Vertices vm) +
                   length (filter (\<lambda>r. isVertex vm ! r) [iPoint..<q]))
        else None"
  show ?case
  proof (cases "iPoint < length (isVertex vm)")
    case False
    then show ?thesis by (subst Build_loop.simps) auto
  next
    case inr: True
    show ?thesis
    proof (cases "isVertex vm ! iPoint")
      case True
      let ?vm1 = "vm\<lparr>Map := (Map vm)[iPoint := Some (length (Vertices vm))],
                     Vertices := Vertices vm @ [iPoint]\<rparr>"
      have "Map (Build_loop vm iPoint) ! q = Map (Build_loop ?vm1 (iPoint + 1)) ! q"
        by (subst Build_loop.simps) (simp add: inr True)
      also have "\<dots> = ?rhs"
        using "1.prems" inr True
        apply (subst "1.IH"(1)[OF inr True])
         apply simp
        apply (cases "q = iPoint")
         apply (auto simp: nth_list_update filter_upt_step less_Suc_eq)
        done
      finally show ?thesis .
    next
      case False
      let ?vm1 = "vm\<lparr>Map := (Map vm)[iPoint := None]\<rparr>"
      have "Map (Build_loop vm iPoint) ! q = Map (Build_loop ?vm1 (iPoint + 1)) ! q"
        by (subst Build_loop.simps) (simp add: inr False)
      also have "\<dots> = ?rhs"
        using "1.prems" inr False
        apply (subst "1.IH"(2)[OF inr False])
         apply simp
        apply (cases "q = iPoint")
         apply (auto simp: nth_list_update filter_upt_step less_Suc_eq)
        done
      finally show ?thesis .
    qed
  qed
qed

lemma Build_isVertex: "isVertex (Build vm) = isVertex vm"
  by (simp add: Build_def Build_loop_isVertex)

lemma Build_length_Map: "length (Map (Build vm)) = length (Map vm)"
  by (simp add: Build_def Build_loop_length_Map)

lemma Build_Vertices:
  "Vertices (Build vm) = filter (\<lambda>q. isVertex vm ! q) [0..<length (isVertex vm)]"
  by (simp add: Build_def Build_loop_Vertices)

lemma Build_GetVertexIndex:
  assumes "length (Map vm) = length (isVertex vm)"
  shows "GetVertexIndex (Build vm) p =
           (if GetIsVertex vm p
            then Some (length (filter (\<lambda>r. isVertex vm ! r) [0..<p])) else None)"
  using assms
  by (simp add: GetVertexIndex_def GetIsVertex_def Build_length_Map)
     (simp add: Build_def Build_loop_Map)

lemma filter_upt_nth:
  assumes "p < n" and "P p"
  shows "length (filter P [0..<p]) < length (filter P [0..<n]) \<and>
         filter P [0..<n] ! length (filter P [0..<p]) = p"
proof -
  have "[0..<p + (n - p)] = [0..<p] @ [p..<p + (n - p)]"
    by (rule upt_add_eq_append) simp
  then have "[0..<n] = [0..<p] @ p # [Suc p..<n]"
    using assms(1) by (simp add: upt_conv_Cons)
  then have "filter P [0..<n] = filter P [0..<p] @ p # filter P [Suc p..<n]"
    using assms(2) by simp
  then show ?thesis by (simp add: nth_append)
qed

lemma Build_index_bound:
  assumes "length (Map vm) = length (isVertex vm)"
    and "GetVertexIndex (Build vm) p = Some k"
  shows "k < GetnVertex (Build vm) \<and> Vertices (Build vm) ! k = p"
proof -
  from assms have flagged: "GetIsVertex vm p"
    and k: "k = length (filter (\<lambda>r. isVertex vm ! r) [0..<p])"
    by (auto simp: Build_GetVertexIndex split: if_splits)
  then show ?thesis
    using filter_upt_nth [of p "length (isVertex vm)" "\<lambda>r. isVertex vm ! r"]
    by (simp add: GetnVertex_def Build_Vertices GetIsVertex_def)
qed

lemma Build_index_injective:
  assumes "length (Map vm) = length (isVertex vm)"
    and "GetVertexIndex (Build vm) p = Some k" and "GetVertexIndex (Build vm) p' = Some k"
  shows "p = p'"
  using Build_index_bound [OF assms(1,2)] Build_index_bound [OF assms(1,3)] by simp

lemma Build_unflagged:
  assumes "length (Map vm) = length (isVertex vm)" and "\<not> GetIsVertex vm p"
  shows "GetVertexIndex (Build vm) p = None"
  using assms by (simp add: Build_GetVertexIndex)

lemma flag_points_Map: "Map (flag_points vm ps) = Map vm"
  by (induction ps arbitrary: vm) (simp_all add: SetIsVertex_def)

lemma flag_points_Vertices: "Vertices (flag_points vm ps) = Vertices vm"
  by (induction ps arbitrary: vm) (simp_all add: SetIsVertex_def)

lemma flag_points_length: "length (isVertex (flag_points vm ps)) = length (isVertex vm)"
  by (induction ps arbitrary: vm) (simp_all add: SetIsVertex_def)

lemma flag_points_nth:
  "i < length (isVertex vm) \<Longrightarrow>
   isVertex (flag_points vm ps) ! i = (i \<in> set ps \<or> isVertex vm ! i)"
proof (induction ps arbitrary: vm)
  case Nil
  then show ?case by simp
next
  case (Cons a ps)
  have "isVertex (flag_points (SetIsVertex vm a True) ps) ! i =
          (i \<in> set ps \<or> isVertex (SetIsVertex vm a True) ! i)"
    using Cons.prems by (intro Cons.IH) (simp add: SetIsVertex_def)
  then show ?case
    using Cons.prems by (cases "i = a") (simp_all add: SetIsVertex_def)
qed

lemma flag_points_set_eq:
  assumes "set ps = set qs"
  shows "flag_points vm ps = flag_points vm qs"
proof -
  have "isVertex (flag_points vm ps) = isVertex (flag_points vm qs)"
    using assms by (intro nth_equalityI) (simp_all add: flag_points_length flag_points_nth)
  then show ?thesis
    by (simp add: flag_points_Map flag_points_Vertices)
qed

text \<open>
  The spec's example: the points 5, 2 and 9 of a mesh of 10 points, flagged in this
  order, get the indices 1, 0 and 2.
\<close>

lemma Build_example:
  "Vertices (Build (flag_points (Reset 10) [5, 2, 9])) = [2, 5, 9] \<and>
   GetVertexIndex (Build (flag_points (Reset 10) [5, 2, 9])) 2 = Some 0 \<and>
   GetVertexIndex (Build (flag_points (Reset 10) [5, 2, 9])) 5 = Some 1 \<and>
   GetVertexIndex (Build (flag_points (Reset 10) [5, 2, 9])) 9 = Some 2 \<and>
   GetVertexIndex (Build (flag_points (Reset 10) [5, 2, 9])) 4 = None"
  by code_simp

text \<open>
  C3. On a vertex map whose two arrays over the points have the same length, \<open>Build\<close>
  gives the compact indices \<open>0..k-1\<close> to exactly the points whose flag is
  set, in ascending order of point identifier: the dense array of the built map is
  strictly ascending, its members are the flagged points, and a point has the compact
  index \<open>k\<close> if and only if it is the \<open>k\<close>-th entry of the dense array. The assignment
  does not depend on the order of the flagging: flagging two lists of points with the
  same members, from the same map, gives the same built map.
\<close>

theorem Build_ascending_compaction:
  assumes "length (Map vm) = length (isVertex vm)" and "set ps = set qs"
  shows "sorted_wrt (<) (Vertices (Build vm)) \<and>
         set (Vertices (Build vm)) = {p. GetIsVertex vm p} \<and>
         (\<forall>p k. GetVertexIndex (Build vm) p = Some k \<longleftrightarrow>
                  k < GetnVertex (Build vm) \<and> Vertices (Build vm) ! k = p) \<and>
         Build (flag_points vm0 ps) = Build (flag_points vm0 qs)"
proof -
  let ?P = "\<lambda>q. isVertex vm ! q"
  let ?Vs = "Vertices (Build vm)"
  have asc: "sorted_wrt (<) ?Vs"
    by (simp add: Build_Vertices sorted_wrt_filter)
  have mem: "set ?Vs = {p. GetIsVertex vm p}"
    by (auto simp: Build_Vertices GetIsVertex_def)
  have dist: "distinct ?Vs"
    by (simp add: Build_Vertices)
  have idx: "GetVertexIndex (Build vm) p = Some k \<longleftrightarrow>
               k < GetnVertex (Build vm) \<and> ?Vs ! k = p" for p k
  proof
    assume "GetVertexIndex (Build vm) p = Some k"
    then show "k < GetnVertex (Build vm) \<and> ?Vs ! k = p"
      using Build_index_bound [OF assms(1)] by simp
  next
    assume r: "k < GetnVertex (Build vm) \<and> ?Vs ! k = p"
    then have "p \<in> set ?Vs"
      by (auto simp: GetnVertex_def)
    with mem have "GetIsVertex vm p" by simp
    then obtain k' where k': "GetVertexIndex (Build vm) p = Some k'"
      using assms(1) by (simp add: Build_GetVertexIndex)
    then have "k' < length ?Vs \<and> ?Vs ! k' = p"
      using Build_index_bound [OF assms(1)] by (simp add: GetnVertex_def)
    with r dist have "k' = k"
      by (metis GetnVertex_def nth_eq_iff_index_eq)
    with k' show "GetVertexIndex (Build vm) p = Some k" by simp
  qed
  have "flag_points vm0 ps = flag_points vm0 qs"
    using assms(2) by (rule flag_points_set_eq)
  with asc mem idx show ?thesis by simp
qed

theorem Build_ascending_compaction_witness:
  "length (Map (flag_points (Reset 10) [5, 2, 9])) =
     length (isVertex (flag_points (Reset 10) [5, 2, 9])) \<and>
   set [5, 2, 9 :: nat] = set [9, 5, 2] \<and>
   sorted_wrt (<) (Vertices (Build (flag_points (Reset 10) [5, 2, 9]))) \<and>
   (GetVertexIndex (Build (flag_points (Reset 10) [5, 2, 9])) 5 = Some 1 \<longleftrightarrow>
      1 < GetnVertex (Build (flag_points (Reset 10) [5, 2, 9])) \<and>
      Vertices (Build (flag_points (Reset 10) [5, 2, 9])) ! 1 = 5) \<and>
   Build (flag_points (Reset 10) [5, 2, 9]) = Build (flag_points (Reset 10) [9, 5, 2])"
proof -
  have h1: "length (Map (flag_points (Reset 10) [5, 2, 9])) =
              length (isVertex (flag_points (Reset 10) [5, 2, 9]))"
    by code_simp
  have h2: "set [5, 2, 9 :: nat] = set [9, 5, 2]"
    by auto
  show ?thesis
    using Build_ascending_compaction [OF h1 h2, of "Reset 10"] h1 h2 by blast
qed


subsection \<open>What each setter leaves alone\<close>

lemma SetBound_Disp_frame:
  "SetBound_Disp s p i v = Inr s' \<Longrightarrow>
     VertexMap s' = VertexMap s \<and> nDim s' = nDim s \<and> nVar s' = nVar s \<and>
     nMode s' = nMode s \<and> nBlade s' = nBlade s \<and>
     Boundary_Velocity s' = Boundary_Velocity s \<and>
     Boundary_ModeShape s' = Boundary_ModeShape s \<and>
     Boundary_ModeShape_TWM s' = Boundary_ModeShape_TWM s \<and>
     Boundary_BladeID s' = Boundary_BladeID s"
  by (auto simp: SetBound_Disp_def split: option.splits sum.splits)

lemma SetBound_Disp_vec_frame:
  "SetBound_Disp_vec s p vals = Inr s' \<Longrightarrow>
     VertexMap s' = VertexMap s \<and> nDim s' = nDim s \<and> nVar s' = nVar s \<and>
     nMode s' = nMode s \<and> nBlade s' = nBlade s \<and>
     Boundary_Velocity s' = Boundary_Velocity s \<and>
     Boundary_ModeShape s' = Boundary_ModeShape s \<and>
     Boundary_ModeShape_TWM s' = Boundary_ModeShape_TWM s \<and>
     Boundary_BladeID s' = Boundary_BladeID s"
  by (auto simp: SetBound_Disp_vec_def split: option.splits sum.splits)

lemma SetBound_Vel_frame:
  "SetBound_Vel s p i v = Inr s' \<Longrightarrow>
     VertexMap s' = VertexMap s \<and> nDim s' = nDim s \<and> nVar s' = nVar s \<and>
     nMode s' = nMode s \<and> nBlade s' = nBlade s \<and>
     Boundary_Displacement s' = Boundary_Displacement s \<and>
     Boundary_ModeShape s' = Boundary_ModeShape s \<and>
     Boundary_ModeShape_TWM s' = Boundary_ModeShape_TWM s \<and>
     Boundary_BladeID s' = Boundary_BladeID s"
  by (auto simp: SetBound_Vel_def split: option.splits sum.splits)

lemma SetBound_Vel_vec_frame:
  "SetBound_Vel_vec s p vals = Inr s' \<Longrightarrow>
     VertexMap s' = VertexMap s \<and> nDim s' = nDim s \<and> nVar s' = nVar s \<and>
     nMode s' = nMode s \<and> nBlade s' = nBlade s \<and>
     Boundary_Displacement s' = Boundary_Displacement s \<and>
     Boundary_ModeShape s' = Boundary_ModeShape s \<and>
     Boundary_ModeShape_TWM s' = Boundary_ModeShape_TWM s \<and>
     Boundary_BladeID s' = Boundary_BladeID s"
  by (auto simp: SetBound_Vel_vec_def split: option.splits sum.splits)

lemma SetBound_ModeShape_frame:
  "SetBound_ModeShape s p k i v = Inr s' \<Longrightarrow>
     VertexMap s' = VertexMap s \<and> nDim s' = nDim s \<and> nVar s' = nVar s \<and>
     nMode s' = nMode s \<and> nBlade s' = nBlade s \<and>
     Boundary_Displacement s' = Boundary_Displacement s \<and>
     Boundary_Velocity s' = Boundary_Velocity s \<and>
     Boundary_ModeShape_TWM s' = Boundary_ModeShape_TWM s \<and>
     Boundary_BladeID s' = Boundary_BladeID s"
  by (auto simp: SetBound_ModeShape_def split: option.splits sum.splits)

lemma SetBound_ModeShape_TWM_frame:
  "SetBound_ModeShape_TWM s p k i v = Inr s' \<Longrightarrow>
     VertexMap s' = VertexMap s \<and> nDim s' = nDim s \<and> nVar s' = nVar s \<and>
     nMode s' = nMode s \<and> nBlade s' = nBlade s \<and>
     Boundary_Displacement s' = Boundary_Displacement s \<and>
     Boundary_Velocity s' = Boundary_Velocity s \<and>
     Boundary_ModeShape s' = Boundary_ModeShape s \<and>
     Boundary_BladeID s' = Boundary_BladeID s"
  by (auto simp: SetBound_ModeShape_TWM_def split: option.splits sum.splits)

lemma SetBound_BladeID_frame:
  "SetBound_BladeID s p b = Inr s' \<Longrightarrow>
     VertexMap s' = VertexMap s \<and> nDim s' = nDim s \<and> nVar s' = nVar s \<and>
     nMode s' = nMode s \<and> nBlade s' = nBlade s \<and>
     Boundary_Displacement s' = Boundary_Displacement s \<and>
     Boundary_Velocity s' = Boundary_Velocity s \<and>
     Boundary_ModeShape s' = Boundary_ModeShape s \<and>
     Boundary_ModeShape_TWM s' = Boundary_ModeShape_TWM s"
  by (auto simp: SetBound_BladeID_def split: option.splits sum.splits)

lemma Initialize_ModeshapeMatrix_frame:
  "VertexMap (Initialize_ModeshapeMatrix s m) = VertexMap s \<and>
   nDim (Initialize_ModeshapeMatrix s m) = nDim s \<and>
   nVar (Initialize_ModeshapeMatrix s m) = nVar s \<and>
   nBlade (Initialize_ModeshapeMatrix s m) = nBlade s \<and>
   Boundary_Displacement (Initialize_ModeshapeMatrix s m) = Boundary_Displacement s \<and>
   Boundary_Velocity (Initialize_ModeshapeMatrix s m) = Boundary_Velocity s \<and>
   Boundary_BladeID (Initialize_ModeshapeMatrix s m) = Boundary_BladeID s"
  by (simp add: Initialize_ModeshapeMatrix_def Let_def)

text \<open>
  After \<open>AllocateBoundaryVariables\<close> the displacement, the velocity and the blade
  identifiers have a slot for every point that has a compact index.
\<close>

lemma AllocateBoundaryVariables_extents:
  assumes "length (Map (VertexMap s)) = length (isVertex (VertexMap s))"
    and "GetVertexIndex (VertexMap (AllocateBoundaryVariables s)) p = Some iVertex"
  shows "iVertex < m_rows (Boundary_Displacement (AllocateBoundaryVariables s)) \<and>
         m_cols (Boundary_Displacement (AllocateBoundaryVariables s)) =
           nDim (AllocateBoundaryVariables s) \<and>
         iVertex < m_rows (Boundary_Velocity (AllocateBoundaryVariables s)) \<and>
         m_cols (Boundary_Velocity (AllocateBoundaryVariables s)) =
           nDim (AllocateBoundaryVariables s) \<and>
         iVertex < v_size (Boundary_BladeID (AllocateBoundaryVariables s))"
proof -
  from assms(2) have "GetVertexIndex (Build (VertexMap s)) p = Some iVertex"
    by (simp add: AllocateBoundaryVariables_def Let_def)
  then have "iVertex < GetnVertex (Build (VertexMap s))"
    using Build_index_bound [OF assms(1)] by simp
  then show ?thesis
    by (simp add: AllocateBoundaryVariables_def Let_def mat_resize_def vec_resize_def)
qed

subsection \<open>Every constructed object stays allocated\<close>

lemma mat_set_extents:
  "mat_set M i j v = Inr M' \<Longrightarrow> m_rows M' = m_rows M \<and> m_cols M' = m_cols M"
  by (auto simp: mat_set_def split: if_splits)

lemma vec_set_size: "vec_set V i v = Inr V' \<Longrightarrow> v_size V' = v_size V"
  by (auto simp: vec_set_def split: if_splits)

lemma SetBound_Disp_extents:
  "SetBound_Disp s p i v = Inr s' \<Longrightarrow>
     m_rows (Boundary_Displacement s') = m_rows (Boundary_Displacement s) \<and>
     m_cols (Boundary_Displacement s') = m_cols (Boundary_Displacement s)"
  by (auto simp: SetBound_Disp_def split: option.splits sum.splits dest: mat_set_extents)

lemma SetBound_Disp_vec_extents:
  "SetBound_Disp_vec s p vals = Inr s' \<Longrightarrow>
     m_rows (Boundary_Displacement s') = m_rows (Boundary_Displacement s) \<and>
     m_cols (Boundary_Displacement s') = m_cols (Boundary_Displacement s)"
  by (auto simp: SetBound_Disp_vec_def split: option.splits sum.splits dest: copy_loop_extents)

lemma SetBound_Vel_extents:
  "SetBound_Vel s p i v = Inr s' \<Longrightarrow>
     m_rows (Boundary_Velocity s') = m_rows (Boundary_Velocity s) \<and>
     m_cols (Boundary_Velocity s') = m_cols (Boundary_Velocity s)"
  by (auto simp: SetBound_Vel_def split: option.splits sum.splits dest: mat_set_extents)

lemma SetBound_Vel_vec_extents:
  "SetBound_Vel_vec s p vals = Inr s' \<Longrightarrow>
     m_rows (Boundary_Velocity s') = m_rows (Boundary_Velocity s) \<and>
     m_cols (Boundary_Velocity s') = m_cols (Boundary_Velocity s)"
  by (auto simp: SetBound_Vel_vec_def split: option.splits sum.splits dest: copy_loop_extents)

lemma SetBound_BladeID_size:
  "SetBound_BladeID s p b = Inr s' \<Longrightarrow>
     v_size (Boundary_BladeID s') = v_size (Boundary_BladeID s)"
  by (auto simp: SetBound_BladeID_def split: option.splits sum.splits dest: vec_set_size)

lemma allocated_cong:
  assumes "allocated s"
    and "VertexMap s' = VertexMap s" and "nDim s' = nDim s" and "nVar s' = nVar s"
    and "m_rows (Boundary_Displacement s') = m_rows (Boundary_Displacement s)"
    and "m_cols (Boundary_Displacement s') = m_cols (Boundary_Displacement s)"
    and "m_rows (Boundary_Velocity s') = m_rows (Boundary_Velocity s)"
    and "m_cols (Boundary_Velocity s') = m_cols (Boundary_Velocity s)"
    and "v_size (Boundary_BladeID s') = v_size (Boundary_BladeID s)"
  shows "allocated s'"
  using assms by (auto simp: allocated_def split: option.splits)

lemma constructed_allocated: "allocated (CMeshBoundVariable npoint ndim)"
  by (simp add: allocated_def CMeshBoundVariable_def Reset_def)

lemma Build_Map_member:
  assumes "length (Map vm) = length (isVertex vm)" and "Some k \<in> set (Map (Build vm))"
  shows "k < GetnVertex (Build vm)"
proof -
  from assms(2) obtain p where "p < length (Map (Build vm))" and "Map (Build vm) ! p = Some k"
    by (auto simp: in_set_conv_nth)
  then have "GetVertexIndex (Build vm) p = Some k"
    by (simp add: GetVertexIndex_def)
  then show ?thesis
    using Build_index_bound [OF assms(1)] by simp
qed

lemma AllocateBoundaryVariables_allocated:
  assumes "allocated s"
  shows "allocated (AllocateBoundaryVariables s)"
proof -
  from assms have len: "length (Map (VertexMap s)) = length (isVertex (VertexMap s))"
    and var: "nVar s = nDim s"
    by (simp_all add: allocated_def)
  show ?thesis
    using var len Build_Map_member [OF len]
    by (auto simp: allocated_def AllocateBoundaryVariables_def Let_def Build_length_Map
          Build_isVertex mat_resize_def vec_resize_def split: option.splits)
qed

lemma exec_allocated:
  assumes "exec s c = Inr s'" and "allocated s"
  shows "allocated s'"
proof (cases c)
  case (Call_Set_isVertex q flag)
  with assms show ?thesis
    by (auto simp: allocated_def Set_isVertex_def SetIsVertex_def split: option.splits)
next
  case Call_AllocateBoundaryVariables
  with assms show ?thesis
    by (auto simp: AllocateBoundaryVariables_allocated)
next
  case (Call_SetBound_Disp_vec q vals)
  with assms(1) have "SetBound_Disp_vec s q vals = Inr s'" by simp
  then show ?thesis
    using assms(2) SetBound_Disp_vec_frame [of s q vals s']
      SetBound_Disp_vec_extents [of s q vals s']
    by (intro allocated_cong [of s s']) simp_all
next
  case (Call_SetBound_Disp q i v)
  with assms(1) have "SetBound_Disp s q i v = Inr s'" by simp
  then show ?thesis
    using assms(2) SetBound_Disp_frame [of s q i v s'] SetBound_Disp_extents [of s q i v s']
    by (intro allocated_cong [of s s']) simp_all
next
  case (Call_Initialize_ModeshapeMatrix m)
  with assms(1) have "s' = Initialize_ModeshapeMatrix s m" by simp
  then show ?thesis
    using assms(2) Initialize_ModeshapeMatrix_frame [of s m]
    by (intro allocated_cong [of s s']) simp_all
next
  case (Call_SetBound_ModeShape q k i v)
  with assms(1) have "SetBound_ModeShape s q k i v = Inr s'" by simp
  then show ?thesis
    using assms(2) SetBound_ModeShape_frame [of s q k i v s']
    by (intro allocated_cong [of s s']) simp_all
next
  case (Call_SetBound_ModeShape_TWM q k i v)
  with assms(1) have "SetBound_ModeShape_TWM s q k i v = Inr s'" by simp
  then show ?thesis
    using assms(2) SetBound_ModeShape_TWM_frame [of s q k i v s']
    by (intro allocated_cong [of s s']) simp_all
next
  case (Call_SetBound_BladeID q b)
  with assms(1) have "SetBound_BladeID s q b = Inr s'" by simp
  then show ?thesis
    using assms(2) SetBound_BladeID_frame [of s q b s'] SetBound_BladeID_size [of s q b s']
    by (intro allocated_cong [of s s']) simp_all
next
  case (Call_SetBound_Vel_vec q vals)
  with assms(1) have "SetBound_Vel_vec s q vals = Inr s'" by simp
  then show ?thesis
    using assms(2) SetBound_Vel_vec_frame [of s q vals s']
      SetBound_Vel_vec_extents [of s q vals s']
    by (intro allocated_cong [of s s']) simp_all
next
  case (Call_SetBound_Vel q i v)
  with assms(1) have "SetBound_Vel s q i v = Inr s'" by simp
  then show ?thesis
    using assms(2) SetBound_Vel_frame [of s q i v s'] SetBound_Vel_extents [of s q i v s']
    by (intro allocated_cong [of s s']) simp_all
qed

lemma run_allocated:
  assumes "run s calls = Inr s'" and "allocated s"
  shows "allocated s'"
  using assms
proof (induction calls arbitrary: s)
  case Nil
  then show ?case by simp
next
  case (Cons c cs)
  from Cons.prems(1) obtain s1 where c: "exec s c = Inr s1" and cs: "run s1 cs = Inr s'"
    by (auto split: sum.splits)
  from c Cons.prems(2) have "allocated s1" by (rule exec_allocated)
  with cs show ?case by (rule Cons.IH)
qed

text \<open>
  In every object that was constructed and then underwent calls that returned, a
  point with a compact index has its storage: these are the assumptions under which
  the round trip of the displacement and the recovery of the adjoint are stated.
\<close>

lemma constructed_run_allocated:
  assumes "run (CMeshBoundVariable npoint ndim) calls = Inr s"
    and "GetVertexIndex (VertexMap s) p = Some iVertex"
  shows "iVertex < m_rows (Boundary_Displacement s) \<and>
         nDim s \<le> m_cols (Boundary_Displacement s) \<and>
         iVertex < m_rows (Boundary_Velocity s) \<and>
         nDim s \<le> m_cols (Boundary_Velocity s) \<and>
         iVertex < v_size (Boundary_BladeID s) \<and> nVar s = nDim s"
proof -
  have a: "allocated s"
    using assms(1) constructed_allocated by (rule run_allocated)
  from assms(2) have "Some iVertex \<in> set (Map (VertexMap s))"
    by (metis GetVertexIndex_def nth_mem option.distinct(1))
  with a show ?thesis
    by (auto simp: allocated_def split: option.splits)
qed

lemma ten_set_extents:
  "ten_set T i j k v = Inr T' \<Longrightarrow>
     t_length T' = t_length T \<and> t_rows T' = t_rows T \<and> t_cols T' = t_cols T"
  by (auto simp: ten_set_def split: if_splits)

lemma SetBound_ModeShape_length:
  "SetBound_ModeShape s p k i v = Inr s' \<Longrightarrow>
     t_length (Boundary_ModeShape s') = t_length (Boundary_ModeShape s)"
  by (auto simp: SetBound_ModeShape_def split: option.splits sum.splits dest: ten_set_extents)

lemma mode_shapes_sized_cong:
  assumes "mode_shapes_sized s"
    and "VertexMap s' = VertexMap s"
    and "t_length (Boundary_ModeShape s') = t_length (Boundary_ModeShape s)"
  shows "mode_shapes_sized s'"
  using assms by (auto simp: mode_shapes_sized_def split: option.splits)

lemma constructed_mode_shapes_sized: "mode_shapes_sized (CMeshBoundVariable npoint ndim)"
  by (simp add: mode_shapes_sized_def CMeshBoundVariable_def Reset_def GetnVertex_def
        ten_empty_def)

lemma AllocateBoundaryVariables_mode_shapes_sized:
  assumes "allocated s"
  shows "mode_shapes_sized (AllocateBoundaryVariables s)"
proof -
  from assms have len: "length (Map (VertexMap s)) = length (isVertex (VertexMap s))"
    by (simp add: allocated_def)
  show ?thesis
    using Build_Map_member [OF len]
    by (auto simp: mode_shapes_sized_def AllocateBoundaryVariables_def Let_def ten_resize_def
          split: option.splits)
qed

lemma exec_mode_shapes_sized:
  assumes "exec s c = Inr s'" and "allocated s" and "mode_shapes_sized s"
  shows "mode_shapes_sized s'"
proof (cases c)
  case (Call_Set_isVertex q flag)
  with assms show ?thesis
    by (auto simp: mode_shapes_sized_def Set_isVertex_def SetIsVertex_def GetnVertex_def
          split: option.splits)
next
  case Call_AllocateBoundaryVariables
  with assms show ?thesis
    by (auto simp: AllocateBoundaryVariables_mode_shapes_sized)
next
  case (Call_SetBound_Disp_vec q vals)
  with assms(1) have "SetBound_Disp_vec s q vals = Inr s'" by simp
  then show ?thesis
    using assms(3) SetBound_Disp_vec_frame [of s q vals s']
    by (intro mode_shapes_sized_cong [of s s']) simp_all
next
  case (Call_SetBound_Disp q i v)
  with assms(1) have "SetBound_Disp s q i v = Inr s'" by simp
  then show ?thesis
    using assms(3) SetBound_Disp_frame [of s q i v s']
    by (intro mode_shapes_sized_cong [of s s']) simp_all
next
  case (Call_Initialize_ModeshapeMatrix m)
  with assms(1) have "s' = Initialize_ModeshapeMatrix s m" by simp
  then show ?thesis
    using assms(3)
    by (intro mode_shapes_sized_cong [of s s'])
       (simp_all add: Initialize_ModeshapeMatrix_def Let_def ten_resize_def)
next
  case (Call_SetBound_ModeShape q k i v)
  with assms(1) have "SetBound_ModeShape s q k i v = Inr s'" by simp
  then show ?thesis
    using assms(3) SetBound_ModeShape_frame [of s q k i v s']
      SetBound_ModeShape_length [of s q k i v s']
    by (intro mode_shapes_sized_cong [of s s']) simp_all
next
  case (Call_SetBound_ModeShape_TWM q k i v)
  with assms(1) have "SetBound_ModeShape_TWM s q k i v = Inr s'" by simp
  then show ?thesis
    using assms(3) SetBound_ModeShape_TWM_frame [of s q k i v s']
    by (intro mode_shapes_sized_cong [of s s']) simp_all
next
  case (Call_SetBound_BladeID q b)
  with assms(1) have "SetBound_BladeID s q b = Inr s'" by simp
  then show ?thesis
    using assms(3) SetBound_BladeID_frame [of s q b s']
    by (intro mode_shapes_sized_cong [of s s']) simp_all
next
  case (Call_SetBound_Vel_vec q vals)
  with assms(1) have "SetBound_Vel_vec s q vals = Inr s'" by simp
  then show ?thesis
    using assms(3) SetBound_Vel_vec_frame [of s q vals s']
    by (intro mode_shapes_sized_cong [of s s']) simp_all
next
  case (Call_SetBound_Vel q i v)
  with assms(1) have "SetBound_Vel s q i v = Inr s'" by simp
  then show ?thesis
    using assms(3) SetBound_Vel_frame [of s q i v s']
    by (intro mode_shapes_sized_cong [of s s']) simp_all
qed

lemma run_mode_shapes_sized:
  assumes "run s calls = Inr s'" and "allocated s" and "mode_shapes_sized s"
  shows "mode_shapes_sized s'"
  using assms
proof (induction calls arbitrary: s)
  case Nil
  then show ?case by simp
next
  case (Cons c cs)
  from Cons.prems(1) obtain s1 where c: "exec s c = Inr s1" and cs: "run s1 cs = Inr s'"
    by (auto split: sum.splits)
  from c Cons.prems(2) have a: "allocated s1" by (rule exec_allocated)
  from c Cons.prems(2,3) have "mode_shapes_sized s1" by (rule exec_mode_shapes_sized)
  with cs a show ?case by (intro Cons.IH [of s1])
qed

text \<open>
  In every object that was constructed and then underwent calls that returned, the
  first extent of the standard mode-shape tensor is the number of boundary vertices,
  and a compact index is below that number: these are the assumptions under which the
  allocation of the mode-shape tensors is stated.
\<close>

lemma constructed_run_mode_shapes_sized:
  assumes "run (CMeshBoundVariable npoint ndim) calls = Inr s"
  shows "t_length (Boundary_ModeShape s) = GetnVertex (VertexMap s) \<and>
         (GetVertexIndex (VertexMap s) p = Some iVertex \<longrightarrow>
            iVertex < GetnVertex (VertexMap s))"
proof -
  have a: "mode_shapes_sized s"
    using assms constructed_allocated constructed_mode_shapes_sized
    by (rule run_mode_shapes_sized)
  have "Some iVertex \<in> set (Map (VertexMap s))"
    if "GetVertexIndex (VertexMap s) p = Some iVertex"
    using that by (metis GetVertexIndex_def nth_mem option.distinct(1))
  with a show ?thesis
    by (auto simp: mode_shapes_sized_def split: option.splits)
qed

subsection \<open>The scenarios, evaluated\<close>

lemma scenario_VertexMap:
  "VertexMap scenario =
     \<lparr>isVertex = [False, True, False, True, False, False, False, True, False, False],
      Map = [None, Some 0, None, Some 1, None, None, None, Some 2, None, None],
      Vertices = [1, 3, 7]\<rparr>"
  by code_simp

lemma scenario_index:
  "GetVertexIndex (VertexMap scenario) 1 = Some 0"
  "GetVertexIndex (VertexMap scenario) 3 = Some 1"
  "GetVertexIndex (VertexMap scenario) 7 = Some 2"
  "GetVertexIndex (VertexMap scenario) 4 = None"
  by (simp_all add: scenario_VertexMap GetVertexIndex_def)

lemma scenario_nVertex: "GetnVertex (VertexMap scenario) = 3"
  by (simp add: scenario_VertexMap GetnVertex_def)

lemma scenario_fields:
  "nDim scenario = 2" "nVar scenario = 2" "nMode scenario = 0"
  "Boundary_Displacement scenario = mat_resize 3 2 0"
  "Boundary_Velocity scenario = mat_resize 3 2 0"
  "Boundary_BladeID scenario = vec_resize 3 0"
  "Boundary_ModeShape scenario = ten_resize 3 0 2 0"
  "Boundary_ModeShape_TWM scenario = ten_resize 3 0 2 0"
  using scenario_nVertex
  by (simp_all add: scenario_def AllocateBoundaryVariables_def Let_def Set_isVertex_def
        CMeshBoundVariable_def)

lemma scenario_modes_fields:
  "VertexMap scenario_modes = VertexMap scenario"
  "nDim scenario_modes = 2" "nMode scenario_modes = 2"
  "Boundary_ModeShape scenario_modes = ten_resize 3 2 2 0"
  "Boundary_ModeShape_TWM scenario_modes = ten_resize 3 2 2 0"
  by (simp_all add: scenario_modes_def Initialize_ModeshapeMatrix_def Let_def scenario_fields
        ten_resize_def)

text \<open>
  C6. For a point that is not a boundary vertex (the vertex map has no compact index
  for it), \<open>GetAdjoint_BoundDisp\<close> returns the caller's buffer as it was: no entry is
  written, and the buffer is not zero-filled.
\<close>

theorem GetAdjoint_BoundDisp_not_vertex:
  assumes "GetVertexIndex (VertexMap s) p = None"
  shows "GetAdjoint_BoundDisp G s p buf = Inr buf"
  using assms by (simp add: GetAdjoint_BoundDisp_def)

theorem GetAdjoint_BoundDisp_not_vertex_witness:
  "GetVertexIndex (VertexMap scenario) 4 = None \<and>
   GetAdjoint_BoundDisp (\<lambda>x. x + 1) scenario 4 [7, 8] = Inr [7, 8]"
  using GetAdjoint_BoundDisp_not_vertex [of scenario 4 "\<lambda>x. x + 1" "[7, 8]"]
  by (simp add: scenario_index)


subsection \<open>The stored attributes\<close>

lemma Inr_projr: "\<not> isl x \<Longrightarrow> x = Inr (projr x)"
  by (cases x) simp_all

lemma scenario_SetBound_Disp: "\<not> isl (SetBound_Disp scenario 3 0 5)"
  by (simp add: SetBound_Disp_def scenario_index scenario_fields mat_set_def mat_resize_def)

lemma scenario_SetBound_Vel: "\<not> isl (SetBound_Vel scenario 3 0 5)"
  by (simp add: SetBound_Vel_def scenario_index scenario_fields mat_set_def mat_resize_def)

text \<open>
  C10. No attribute operation changes the vertex map. The getters and
  \<open>GetAdjoint_BoundDisp\<close> return a value and no state; every setter of a displacement,
  a velocity, a mode shape or a blade identifier that returns a state returns one with
  the vertex map it was given, so \<open>Get_isVertex\<close> and the compact index of every point
  \<open>q\<close> are as before.
\<close>

theorem setters_keep_VertexMap:
  assumes "SetBound_Disp s p i v = Inr s' \<or> SetBound_Disp_vec s p vals = Inr s' \<or>
           SetBound_Vel s p i v = Inr s' \<or> SetBound_Vel_vec s p vals = Inr s' \<or>
           SetBound_ModeShape s p k i v = Inr s' \<or>
           SetBound_ModeShape_TWM s p k i v = Inr s' \<or>
           SetBound_BladeID s p b = Inr s'"
  shows "GetVertexMap s' = GetVertexMap s \<and>
         Get_isVertex s' q = Get_isVertex s q \<and>
         GetVertexIndex (VertexMap s') q = GetVertexIndex (VertexMap s) q"
proof -
  have "VertexMap s' = VertexMap s"
    using assms
    by (auto dest: SetBound_Disp_frame SetBound_Disp_vec_frame SetBound_Vel_frame
          SetBound_Vel_vec_frame SetBound_ModeShape_frame SetBound_ModeShape_TWM_frame
          SetBound_BladeID_frame)
  then show ?thesis
    by (simp add: GetVertexMap_def Get_isVertex_def)
qed

theorem setters_keep_VertexMap_witness:
  "SetBound_Disp scenario 3 0 5 = Inr (projr (SetBound_Disp scenario 3 0 5)) \<and>
   GetVertexMap (projr (SetBound_Disp scenario 3 0 5)) = GetVertexMap scenario \<and>
   Get_isVertex (projr (SetBound_Disp scenario 3 0 5)) 3 = Get_isVertex scenario 3 \<and>
   GetVertexIndex (VertexMap (projr (SetBound_Disp scenario 3 0 5))) 3 =
     GetVertexIndex (VertexMap scenario) 3"
proof -
  have h: "SetBound_Disp scenario 3 0 5 = Inr (projr (SetBound_Disp scenario 3 0 5))"
    using scenario_SetBound_Disp by (rule Inr_projr)
  show ?thesis
    using setters_keep_VertexMap [of scenario 3 0 5 "projr (SetBound_Disp scenario 3 0 5)"] h
    by blast
qed

text \<open>
  C7. Displacement and velocity are stored apart. A call of \<open>SetBound_Disp\<close> that returns
  leaves every value of \<open>GetBound_Vel\<close> as it was, and a call of \<open>SetBound_Vel\<close> that
  returns leaves every value of \<open>GetBound_Disp\<close> as it was, for all points \<open>p'\<close> and
  dimensions \<open>i'\<close>.
\<close>

theorem displacement_velocity_independent:
  "(SetBound_Disp s p i v = Inr s' \<longrightarrow> GetBound_Vel s' p' i' = GetBound_Vel s p' i') \<and>
   (SetBound_Vel s p i v = Inr s' \<longrightarrow> GetBound_Disp s' p' i' = GetBound_Disp s p' i')"
proof (intro conjI impI)
  assume "SetBound_Disp s p i v = Inr s'"
  then have "VertexMap s' = VertexMap s" and "Boundary_Velocity s' = Boundary_Velocity s"
    by (simp_all add: SetBound_Disp_frame)
  then show "GetBound_Vel s' p' i' = GetBound_Vel s p' i'"
    by (simp add: GetBound_Vel_def split: option.splits)
next
  assume "SetBound_Vel s p i v = Inr s'"
  then have "VertexMap s' = VertexMap s"
    and "Boundary_Displacement s' = Boundary_Displacement s"
    by (simp_all add: SetBound_Vel_frame)
  then show "GetBound_Disp s' p' i' = GetBound_Disp s p' i'"
    by (simp add: GetBound_Disp_def split: option.splits)
qed

theorem displacement_velocity_independent_witness:
  "SetBound_Disp scenario 3 0 5 = Inr (projr (SetBound_Disp scenario 3 0 5)) \<and>
   GetBound_Vel (projr (SetBound_Disp scenario 3 0 5)) 3 0 = GetBound_Vel scenario 3 0 \<and>
   SetBound_Vel scenario 3 0 5 = Inr (projr (SetBound_Vel scenario 3 0 5)) \<and>
   GetBound_Disp (projr (SetBound_Vel scenario 3 0 5)) 3 0 = GetBound_Disp scenario 3 0"
proof -
  have h1: "SetBound_Disp scenario 3 0 5 = Inr (projr (SetBound_Disp scenario 3 0 5))"
    using scenario_SetBound_Disp by (rule Inr_projr)
  have h2: "SetBound_Vel scenario 3 0 5 = Inr (projr (SetBound_Vel scenario 3 0 5))"
    using scenario_SetBound_Vel by (rule Inr_projr)
  show ?thesis
    using displacement_velocity_independent
            [of scenario 3 0 5 "projr (SetBound_Disp scenario 3 0 5)" 3 0]
          displacement_velocity_independent
            [of scenario 3 0 5 "projr (SetBound_Vel scenario 3 0 5)" 3 0]
          h1 h2
    by blast
qed

text \<open>
  C4. Round trip of the displacement. For a boundary vertex \<open>p\<close> whose compact index
  lies within the allocated displacement matrix, the pointer overload of
  \<open>SetBound_Disp\<close> with \<open>nDim\<close> values returns, and afterwards \<open>GetBound_Disp\<close> gives the
  \<open>i\<close>-th of these values for every dimension \<open>i\<close> below \<open>nDim\<close>.
\<close>

theorem SetBound_Disp_vec_roundtrip:
  assumes "GetVertexIndex (VertexMap s) p = Some iVertex"
    and "iVertex < m_rows (Boundary_Displacement s)"
    and "nDim s \<le> m_cols (Boundary_Displacement s)"
    and "length vals = nDim s"
    and "i < nDim s"
  shows "\<exists>s'. SetBound_Disp_vec s p vals = Inr s' \<and> GetBound_Disp s' p i = Inr (vals ! i)"
proof -
  let ?M = "(Boundary_Displacement s)\<lparr>m_data := (\<lambda>a b. if a = iVertex \<and> 0 \<le> b \<and> b < nDim s
                 then vals ! b else m_data (Boundary_Displacement s) a b)\<rparr>"
  have "copy_loop (nDim s) vals iVertex 0 (Boundary_Displacement s) = Inr ?M"
    using assms by (intro copy_loop_result) simp_all
  then have set: "SetBound_Disp_vec s p vals = Inr (s\<lparr>Boundary_Displacement := ?M\<rparr>)"
    using assms(1) by (simp add: SetBound_Disp_vec_def)
  have "GetBound_Disp (s\<lparr>Boundary_Displacement := ?M\<rparr>) p i = Inr (vals ! i)"
    using assms by (simp add: GetBound_Disp_def mat_get_def)
  with set show ?thesis by blast
qed

theorem SetBound_Disp_vec_roundtrip_witness:
  "GetVertexIndex (VertexMap scenario) 3 = Some 1 \<and>
   1 < m_rows (Boundary_Displacement scenario) \<and>
   nDim scenario \<le> m_cols (Boundary_Displacement scenario) \<and>
   length [0.1, 0.2 :: real] = nDim scenario \<and> 1 < nDim scenario \<and>
   (\<exists>s'. SetBound_Disp_vec scenario 3 [0.1, 0.2] = Inr s' \<and>
         GetBound_Disp s' 3 1 = Inr ([0.1, 0.2] ! 1))"
proof -
  have h1: "GetVertexIndex (VertexMap scenario) 3 = Some 1"
    by (simp add: scenario_index)
  have h2: "1 < m_rows (Boundary_Displacement scenario)"
    by (simp add: scenario_fields mat_resize_def)
  have h3: "nDim scenario \<le> m_cols (Boundary_Displacement scenario)"
    by (simp add: scenario_fields mat_resize_def)
  have h4: "length [0.1, 0.2 :: real] = nDim scenario"
    by (simp add: scenario_fields)
  have h5: "1 < nDim scenario"
    by (simp add: scenario_fields)
  show ?thesis
    using SetBound_Disp_vec_roundtrip [OF h1 h2 h3 h4 h5] h1 h2 h3 h4 h5 by blast
qed


text \<open>
  The spec's first scenario: after \<open>SetBound_Disp(3, [0.1, 0.2])\<close> the getter gives 0.1
  and 0.2 at point 3, and 0 at point 4, which was never flagged.
\<close>

lemma scenario_roundtrip:
  "GetBound_Disp (projr (SetBound_Disp_vec scenario 3 [0.1, 0.2])) 3 0 = Inr 0.1 \<and>
   GetBound_Disp (projr (SetBound_Disp_vec scenario 3 [0.1, 0.2])) 3 1 = Inr 0.2 \<and>
   GetBound_Disp (projr (SetBound_Disp_vec scenario 3 [0.1, 0.2])) 4 0 = Inr 0"
  by code_simp

text \<open>
  C5. For a boundary vertex \<open>p\<close> whose compact index lies within the allocated
  displacement matrix, \<open>GetAdjoint_BoundDisp\<close> returns the caller's buffer with one
  entry written per dimension: entry \<open>i\<close>, for \<open>i\<close> below \<open>nDim\<close>, is the derivative
  attached to the displacement stored for \<open>p\<close> in dimension \<open>i\<close>, and the entries from
  \<open>nDim\<close> on are as the caller left them. The loop of the source runs over the
  variables of the base class; a mesh variable has one variable per dimension.
\<close>

theorem GetAdjoint_BoundDisp_vertex:
  assumes "GetVertexIndex (VertexMap s) p = Some iVertex"
    and "iVertex < m_rows (Boundary_Displacement s)"
    and "nDim s \<le> m_cols (Boundary_Displacement s)"
    and "nVar s = nDim s"
    and "nDim s \<le> length buf"
  shows "\<exists>buf'. GetAdjoint_BoundDisp G s p buf = Inr buf' \<and> length buf' = length buf \<and>
           (\<forall>i<nDim s. \<exists>x. GetBound_Disp s p i = Inr x \<and> buf' ! i = G x) \<and>
           (\<forall>i. nDim s \<le> i \<and> i < length buf \<longrightarrow> buf' ! i = buf ! i)"
proof -
  let ?M = "Boundary_Displacement s"
  let ?buf' = "map (\<lambda>i. G (m_data ?M iVertex i)) [0..<nDim s] @ drop (nDim s) buf"
  have "adjoint_loop G (nVar s) ?M iVertex 0 buf =
          Inr (take 0 buf @ map (\<lambda>i. G (m_data ?M iVertex i)) [0..<nVar s] @
               drop (nVar s) buf)"
    using assms by (intro adjoint_loop_result) simp_all
  then have run: "GetAdjoint_BoundDisp G s p buf = Inr ?buf'"
    using assms(1,4) by (simp add: GetAdjoint_BoundDisp_def)
  have len: "length ?buf' = length buf"
    using assms(5) by simp
  have written: "\<exists>x. GetBound_Disp s p i = Inr x \<and> ?buf' ! i = G x" if "i < nDim s" for i
    using that assms(1,2,3) by (simp add: GetBound_Disp_def mat_get_def nth_append)
  have kept: "?buf' ! i = buf ! i" if "nDim s \<le> i \<and> i < length buf" for i
    using that by (simp add: nth_append)
  from run len written kept show ?thesis by blast
qed

theorem GetAdjoint_BoundDisp_vertex_witness:
  "GetVertexIndex (VertexMap scenario) 3 = Some 1 \<and>
   1 < m_rows (Boundary_Displacement scenario) \<and>
   nDim scenario \<le> m_cols (Boundary_Displacement scenario) \<and>
   nVar scenario = nDim scenario \<and>
   nDim scenario \<le> length [7, 8, 9 :: real] \<and>
   (\<exists>buf'. GetAdjoint_BoundDisp (\<lambda>x. x + 1) scenario 3 [7, 8, 9] = Inr buf' \<and>
           length buf' = length [7, 8, 9 :: real] \<and>
           (\<forall>i<nDim scenario. \<exists>x. GetBound_Disp scenario 3 i = Inr x \<and> buf' ! i = x + 1) \<and>
           (\<forall>i. nDim scenario \<le> i \<and> i < length [7, 8, 9 :: real] \<longrightarrow>
                buf' ! i = [7, 8, 9] ! i))"
proof -
  have h1: "GetVertexIndex (VertexMap scenario) 3 = Some 1"
    by (simp add: scenario_index)
  have h2: "1 < m_rows (Boundary_Displacement scenario)"
    by (simp add: scenario_fields mat_resize_def)
  have h3: "nDim scenario \<le> m_cols (Boundary_Displacement scenario)"
    by (simp add: scenario_fields mat_resize_def)
  have h4: "nVar scenario = nDim scenario"
    by (simp add: scenario_fields)
  have h5: "nDim scenario \<le> length [7, 8, 9 :: real]"
    by (simp add: scenario_fields)
  show ?thesis
    using GetAdjoint_BoundDisp_vertex [OF h1 h2 h3 h4 h5, of "\<lambda>x. x + 1"] h1 h2 h3 h4 h5
    by blast
qed

text \<open>
  The same call, evaluated: the first two entries of the buffer are written, the third
  is the caller's.
\<close>

lemma scenario_adjoint:
  "GetAdjoint_BoundDisp (\<lambda>x. x + 1) (projr (SetBound_Disp_vec scenario 3 [0.1, 0.2])) 3
     [7, 8, 9] = Inr [1.1, 1.2, 9]"
  by code_simp

text \<open>
  C8. The two mode-shape tensors are stored apart, and a setter writes one entry. A
  call of \<open>SetBound_ModeShape\<close> that returns leaves the traveling-wave tensor as it was,
  and leaves every value of \<open>GetBound_ModeShape\<close> as it was except at the entry
  (vertex, mode, dimension) it wrote; the same holds for the second setter with the
  two tensors exchanged.
\<close>

theorem mode_shape_set_locality:
  "(SetBound_ModeShape s p k d v = Inr s' \<longrightarrow>
      Boundary_ModeShape_TWM s' = Boundary_ModeShape_TWM s \<and>
      GetBound_ModeShape_TWM s' p' k' d' = GetBound_ModeShape_TWM s p' k' d' \<and>
      ((GetVertexIndex (VertexMap s) p', k', d') \<noteq> (GetVertexIndex (VertexMap s) p, k, d) \<longrightarrow>
         GetBound_ModeShape s' p' k' d' = GetBound_ModeShape s p' k' d')) \<and>
   (SetBound_ModeShape_TWM s p k d v = Inr s' \<longrightarrow>
      Boundary_ModeShape s' = Boundary_ModeShape s \<and>
      GetBound_ModeShape s' p' k' d' = GetBound_ModeShape s p' k' d' \<and>
      ((GetVertexIndex (VertexMap s) p', k', d') \<noteq> (GetVertexIndex (VertexMap s) p, k, d) \<longrightarrow>
         GetBound_ModeShape_TWM s' p' k' d' = GetBound_ModeShape_TWM s p' k' d'))"
proof (intro conjI impI)
  assume a: "SetBound_ModeShape s p k d v = Inr s'"
  then have f: "VertexMap s' = VertexMap s"
    and g: "Boundary_ModeShape_TWM s' = Boundary_ModeShape_TWM s"
    by (simp_all add: SetBound_ModeShape_frame)
  from g show "Boundary_ModeShape_TWM s' = Boundary_ModeShape_TWM s" .
  from f g show "GetBound_ModeShape_TWM s' p' k' d' = GetBound_ModeShape_TWM s p' k' d'"
    by (simp add: GetBound_ModeShape_TWM_def split: option.splits)
  assume "(GetVertexIndex (VertexMap s) p', k', d') \<noteq> (GetVertexIndex (VertexMap s) p, k, d)"
  with a show "GetBound_ModeShape s' p' k' d' = GetBound_ModeShape s p' k' d'"
    by (auto simp: SetBound_ModeShape_def GetBound_ModeShape_def ten_set_def ten_get_def
          split: option.splits sum.splits if_splits)
next
  assume a: "SetBound_ModeShape_TWM s p k d v = Inr s'"
  then have f: "VertexMap s' = VertexMap s"
    and g: "Boundary_ModeShape s' = Boundary_ModeShape s"
    by (simp_all add: SetBound_ModeShape_TWM_frame)
  from g show "Boundary_ModeShape s' = Boundary_ModeShape s" .
  from f g show "GetBound_ModeShape s' p' k' d' = GetBound_ModeShape s p' k' d'"
    by (simp add: GetBound_ModeShape_def split: option.splits)
  assume "(GetVertexIndex (VertexMap s) p', k', d') \<noteq> (GetVertexIndex (VertexMap s) p, k, d)"
  with a show "GetBound_ModeShape_TWM s' p' k' d' = GetBound_ModeShape_TWM s p' k' d'"
    by (auto simp: SetBound_ModeShape_TWM_def GetBound_ModeShape_TWM_def ten_set_def
          ten_get_def split: option.splits sum.splits if_splits)
qed


lemma scenario_SetBound_ModeShape:
  "\<not> isl (SetBound_ModeShape scenario_modes 3 1 0 5)"
  "\<not> isl (SetBound_ModeShape_TWM scenario_modes 3 1 0 5)"
  by (simp_all add: SetBound_ModeShape_def SetBound_ModeShape_TWM_def scenario_modes_fields
        scenario_index ten_set_def ten_resize_def)

theorem mode_shape_set_locality_witness:
  "SetBound_ModeShape scenario_modes 3 1 0 5 =
     Inr (projr (SetBound_ModeShape scenario_modes 3 1 0 5)) \<and>
   SetBound_ModeShape_TWM scenario_modes 3 1 0 5 =
     Inr (projr (SetBound_ModeShape_TWM scenario_modes 3 1 0 5)) \<and>
   (GetVertexIndex (VertexMap scenario_modes) 7, 1 :: nat, 0 :: nat) \<noteq>
     (GetVertexIndex (VertexMap scenario_modes) 3, 1, 0) \<and>
   GetBound_ModeShape_TWM (projr (SetBound_ModeShape scenario_modes 3 1 0 5)) 7 1 0 =
     GetBound_ModeShape_TWM scenario_modes 7 1 0 \<and>
   GetBound_ModeShape (projr (SetBound_ModeShape scenario_modes 3 1 0 5)) 7 1 0 =
     GetBound_ModeShape scenario_modes 7 1 0 \<and>
   GetBound_ModeShape (projr (SetBound_ModeShape_TWM scenario_modes 3 1 0 5)) 7 1 0 =
     GetBound_ModeShape scenario_modes 7 1 0 \<and>
   GetBound_ModeShape_TWM (projr (SetBound_ModeShape_TWM scenario_modes 3 1 0 5)) 7 1 0 =
     GetBound_ModeShape_TWM scenario_modes 7 1 0"
proof -
  have h1: "SetBound_ModeShape scenario_modes 3 1 0 5 =
              Inr (projr (SetBound_ModeShape scenario_modes 3 1 0 5))"
    using scenario_SetBound_ModeShape(1) by (rule Inr_projr)
  have h2: "SetBound_ModeShape_TWM scenario_modes 3 1 0 5 =
              Inr (projr (SetBound_ModeShape_TWM scenario_modes 3 1 0 5))"
    using scenario_SetBound_ModeShape(2) by (rule Inr_projr)
  have h3: "(GetVertexIndex (VertexMap scenario_modes) 7, 1 :: nat, 0 :: nat) \<noteq>
              (GetVertexIndex (VertexMap scenario_modes) 3, 1, 0)"
    by (simp add: scenario_modes_fields scenario_index)
  show ?thesis
    using mode_shape_set_locality
            [of scenario_modes 3 1 0 5 "projr (SetBound_ModeShape scenario_modes 3 1 0 5)" 7 1 0]
          mode_shape_set_locality
            [of scenario_modes 3 1 0 5 "projr (SetBound_ModeShape_TWM scenario_modes 3 1 0 5)"
              7 1 0]
          h1 h2 h3
    by blast
qed

text \<open>
  The spec's mode-shape scenario, evaluated: in the \<open>3 \<times> 2 \<times> 2\<close> zero tensor, the entry
  (vertex 1, mode 1, dimension 0), reached through point 3, is set to 5; the twelve
  entries of the standard tensor, in the order of the points 1, 3, 7, then mode, then
  dimension, hold 5 there and 0 elsewhere, and the traveling-wave tensor holds 0 there.
\<close>

lemma scenario_modes_entries:
  "map (\<lambda>(p, k, d). GetBound_ModeShape (projr (SetBound_ModeShape scenario_modes 3 1 0 5)) p k d)
     [(1, 0, 0), (1, 0, 1), (1, 1, 0), (1, 1, 1),
      (3, 0, 0), (3, 0, 1), (3, 1, 0), (3, 1, 1),
      (7, 0, 0), (7, 0, 1), (7, 1, 0), (7, 1, 1)] =
   [Inr 0, Inr 0, Inr 0, Inr 0, Inr 0, Inr 0, Inr 5, Inr 0, Inr 0, Inr 0, Inr 0, Inr 0] \<and>
   GetBound_ModeShape_TWM (projr (SetBound_ModeShape scenario_modes 3 1 0 5)) 3 1 0 = Inr 0"
  by code_simp

subsection \<open>Allocation of the mode-shape tensors\<close>




text \<open>
  The spec's scenario, evaluated: with 3 boundary vertices and 2 dimensions, the call
  with 2 modes gives the extents \<open>3 \<times> 2 \<times> 2\<close>, and all twelve entries of either tensor
  read 0.
\<close>

lemma scenario_modes_zero:
  "t_length (Boundary_ModeShape scenario_modes) = 3 \<and>
   t_rows (Boundary_ModeShape scenario_modes) = 2 \<and>
   t_cols (Boundary_ModeShape scenario_modes) = 2 \<and>
   map (\<lambda>(p, k, d). GetBound_ModeShape scenario_modes p k d)
     [(1, 0, 0), (1, 0, 1), (1, 1, 0), (1, 1, 1),
      (3, 0, 0), (3, 0, 1), (3, 1, 0), (3, 1, 1),
      (7, 0, 0), (7, 0, 1), (7, 1, 0), (7, 1, 1)] = replicate 12 (Inr 0) \<and>
   map (\<lambda>(p, k, d). GetBound_ModeShape_TWM scenario_modes p k d)
     [(1, 0, 0), (1, 0, 1), (1, 1, 0), (1, 1, 1),
      (3, 0, 0), (3, 0, 1), (3, 1, 0), (3, 1, 1),
      (7, 0, 0), (7, 0, 1), (7, 1, 0), (7, 1, 1)] = replicate 12 (Inr 0)"
  by code_simp

text \<open>
  C9, as stated, fails: the header has no guard. After a first call with 2 modes a
  second call with 3 modes changes \<open>nMode\<close> and the mode extent of both tensors to 3.
\<close>

theorem Initialize_ModeshapeMatrix_twice_counterexample:
  "nMode scenario_modes = 2 \<and>
   nMode (Initialize_ModeshapeMatrix scenario_modes 3) = 3 \<and>
   t_rows (Boundary_ModeShape scenario_modes) = 2 \<and>
   t_rows (Boundary_ModeShape (Initialize_ModeshapeMatrix scenario_modes 3)) = 3 \<and>
   t_rows (Boundary_ModeShape_TWM (Initialize_ModeshapeMatrix scenario_modes 3)) = 3"
  by code_simp

text \<open>
  C9, amended. Every call of \<open>Initialize_ModeshapeMatrix\<close> sets \<open>nMode\<close> to its argument,
  and a call after an earlier one has the effect it would have had without the
  earlier one: the last call decides \<open>nMode\<close>, the extents and the (zero) contents of
  both tensors.
\<close>

theorem Initialize_ModeshapeMatrix_last_call:
  "nMode (Initialize_ModeshapeMatrix s m) = unat m \<and>
   Initialize_ModeshapeMatrix (Initialize_ModeshapeMatrix s m1) m2 =
     Initialize_ModeshapeMatrix s m2"
  by (simp add: Initialize_ModeshapeMatrix_def Let_def ten_resize_def)


subsection \<open>Points that were never flagged\<close>

text \<open>
  A point whose flag is clear and that has no compact index stays so under every call
  other than the one that sets its flag; the two arrays of the vertex map keep their
  common length.
\<close>

lemma exec_keeps_unflagged:
  assumes "exec s c = Inr s'" and "c \<noteq> Call_Set_isVertex p True"
    and "\<not> GetIsVertex (VertexMap s) p"
    and "GetVertexIndex (VertexMap s) p = None"
    and "length (Map (VertexMap s)) = length (isVertex (VertexMap s))"
  shows "\<not> GetIsVertex (VertexMap s') p \<and> GetVertexIndex (VertexMap s') p = None \<and>
         length (Map (VertexMap s')) = length (isVertex (VertexMap s'))"
proof (cases c)
  case (Call_Set_isVertex q flag)
  with assms(1) have s': "VertexMap s' = SetIsVertex (VertexMap s) q flag"
    by (auto simp: Set_isVertex_def)
  from Call_Set_isVertex assms(2) have "q \<noteq> p \<or> \<not> flag" by auto
  with assms(3,4,5) show ?thesis
    unfolding s'
    by (cases "q = p")
       (auto simp: SetIsVertex_def GetIsVertex_def GetVertexIndex_def nth_list_update)
next
  case Call_AllocateBoundaryVariables
  with assms(1) have s': "VertexMap s' = Build (VertexMap s)"
    by (auto simp: AllocateBoundaryVariables_def Let_def)
  show ?thesis
    unfolding s' using assms(3,5)
    by (simp add: Build_unflagged Build_length_Map Build_isVertex GetIsVertex_def)
next
  case (Call_Initialize_ModeshapeMatrix m)
  with assms(1) have "VertexMap s' = VertexMap s"
    by (auto simp: Initialize_ModeshapeMatrix_frame)
  with assms(3,4,5) show ?thesis by simp
next
  case (Call_SetBound_Disp_vec q vals)
  with assms(1) have "VertexMap s' = VertexMap s"
    by (simp add: SetBound_Disp_vec_frame)
  with assms(3,4,5) show ?thesis by simp
next
  case (Call_SetBound_Disp q i v)
  with assms(1) have "VertexMap s' = VertexMap s"
    by (simp add: SetBound_Disp_frame)
  with assms(3,4,5) show ?thesis by simp
next
  case (Call_SetBound_ModeShape q k i v)
  with assms(1) have "VertexMap s' = VertexMap s"
    by (simp add: SetBound_ModeShape_frame)
  with assms(3,4,5) show ?thesis by simp
next
  case (Call_SetBound_ModeShape_TWM q k i v)
  with assms(1) have "VertexMap s' = VertexMap s"
    by (simp add: SetBound_ModeShape_TWM_frame)
  with assms(3,4,5) show ?thesis by simp
next
  case (Call_SetBound_BladeID q b)
  with assms(1) have "VertexMap s' = VertexMap s"
    by (simp add: SetBound_BladeID_frame)
  with assms(3,4,5) show ?thesis by simp
next
  case (Call_SetBound_Vel_vec q vals)
  with assms(1) have "VertexMap s' = VertexMap s"
    by (simp add: SetBound_Vel_vec_frame)
  with assms(3,4,5) show ?thesis by simp
next
  case (Call_SetBound_Vel q i v)
  with assms(1) have "VertexMap s' = VertexMap s"
    by (simp add: SetBound_Vel_frame)
  with assms(3,4,5) show ?thesis by simp
qed

lemma run_keeps_unflagged:
  assumes "run s calls = Inr s'" and "Call_Set_isVertex p True \<notin> set calls"
    and "\<not> GetIsVertex (VertexMap s) p"
    and "GetVertexIndex (VertexMap s) p = None"
    and "length (Map (VertexMap s)) = length (isVertex (VertexMap s))"
  shows "GetVertexIndex (VertexMap s') p = None"
  using assms
proof (induction calls arbitrary: s)
  case Nil
  then show ?case by simp
next
  case (Cons c cs)
  from Cons.prems(1) obtain s1 where c: "exec s c = Inr s1" and cs: "run s1 cs = Inr s'"
    by (auto split: sum.splits)
  from Cons.prems(2) have "c \<noteq> Call_Set_isVertex p True"
    and rest: "Call_Set_isVertex p True \<notin> set cs"
    by auto
  then have "\<not> GetIsVertex (VertexMap s1) p \<and> GetVertexIndex (VertexMap s1) p = None \<and>
             length (Map (VertexMap s1)) = length (isVertex (VertexMap s1))"
    using c Cons.prems(3,4,5) by (intro exec_keeps_unflagged [of s c]) simp_all
  with cs rest show ?case
    by (intro Cons.IH [of s1]) simp_all
qed

lemma constructed_unflagged:
  "\<not> GetIsVertex (VertexMap (CMeshBoundVariable npoint ndim)) p \<and>
   GetVertexIndex (VertexMap (CMeshBoundVariable npoint ndim)) p = None \<and>
   length (Map (VertexMap (CMeshBoundVariable npoint ndim))) =
     length (isVertex (VertexMap (CMeshBoundVariable npoint ndim)))"
  by (simp add: CMeshBoundVariable_def Reset_def GetIsVertex_def GetVertexIndex_def)

text \<open>
  C1. Take any object that was constructed and then underwent any sequence of calls
  that returned, in any order, among them no \<open>Set_isVertex(p, true)\<close>. For this point
  \<open>p\<close> every getter returns zero and every setter returns the object unchanged.
\<close>

theorem never_flagged_point_is_skipped:
  fixes s :: "'v::semiring_1 CMeshBoundVariable"
  assumes "run (CMeshBoundVariable npoint ndim) calls = Inr s"
    and "Call_Set_isVertex p True \<notin> set calls"
  shows "GetBound_Disp s p i = Inr 0 \<and> GetBound_Vel s p i = Inr 0 \<and>
         GetBound_ModeShape s p k i = Inr 0 \<and> GetBound_ModeShape_TWM s p k i = Inr 0 \<and>
         GetBound_BladeID s p = Inr 0 \<and>
         SetBound_Disp s p i v = Inr s \<and> SetBound_Disp_vec s p vals = Inr s \<and>
         SetBound_Vel s p i v = Inr s \<and> SetBound_Vel_vec s p vals = Inr s \<and>
         SetBound_ModeShape s p k i v = Inr s \<and> SetBound_ModeShape_TWM s p k i v = Inr s \<and>
         SetBound_BladeID s p b = Inr s"
proof -
  let ?s0 = "CMeshBoundVariable npoint ndim :: 'v CMeshBoundVariable"
  have "\<not> GetIsVertex (VertexMap ?s0) p \<and> GetVertexIndex (VertexMap ?s0) p = None \<and>
        length (Map (VertexMap ?s0)) = length (isVertex (VertexMap ?s0))"
    by (rule constructed_unflagged)
  with assms have "GetVertexIndex (VertexMap s) p = None"
    by (intro run_keeps_unflagged [of ?s0 calls s p]) simp_all
  then show ?thesis
    by (simp add: GetBound_Disp_def GetBound_Vel_def GetBound_ModeShape_def
          GetBound_ModeShape_TWM_def GetBound_BladeID_def SetBound_Disp_def
          SetBound_Disp_vec_def SetBound_Vel_def SetBound_Vel_vec_def SetBound_ModeShape_def
          SetBound_ModeShape_TWM_def SetBound_BladeID_def)
qed

lemma scenario_calls_run: "\<not> isl (run (CMeshBoundVariable 10 2) scenario_calls)"
  by code_simp

theorem never_flagged_point_is_skipped_witness:
  "run (CMeshBoundVariable 10 2) scenario_calls =
     Inr (projr (run (CMeshBoundVariable 10 2) scenario_calls)) \<and>
   Call_Set_isVertex 4 True \<notin> set scenario_calls \<and>
   GetBound_Disp (projr (run (CMeshBoundVariable 10 2) scenario_calls)) 4 0 = Inr 0 \<and>
   GetBound_BladeID (projr (run (CMeshBoundVariable 10 2) scenario_calls)) 4 = Inr 0 \<and>
   SetBound_Disp (projr (run (CMeshBoundVariable 10 2) scenario_calls)) 4 0 5 =
     Inr (projr (run (CMeshBoundVariable 10 2) scenario_calls)) \<and>
   SetBound_Vel_vec (projr (run (CMeshBoundVariable 10 2) scenario_calls)) 4 [1, 2] =
     Inr (projr (run (CMeshBoundVariable 10 2) scenario_calls))"
proof -
  have h1: "run (CMeshBoundVariable 10 2) scenario_calls =
              Inr (projr (run (CMeshBoundVariable 10 2) scenario_calls))"
    using scenario_calls_run by (rule Inr_projr)
  have h2: "Call_Set_isVertex 4 True \<notin> set scenario_calls"
    by (simp add: scenario_calls_def)
  show ?thesis
    using never_flagged_point_is_skipped [OF h1 h2, of 0 0 5 "[1, 2]"] h1 h2 by blast
qed

end
